theory Spec2Isabelle
  imports Complex_Main "HOL-Library.Sublist"
begin

section \<open>JavaScript values and strings\<close>

text \<open>
  The stat-reconciliation code of the league tracker works on loosely typed records
  (\<^verbatim>\<open>Record<string, unknown>\<close>) decoded from JSON. A field value is \<open>null\<close>, a boolean,
  a number or a string; an absent key (JavaScript \<open>undefined\<close>) is \<open>None\<close> in the map.
  Numbers are exact rationals: every number the application writes is an integer counter
  or identifier, far below \<open>2^53\<close>, where double arithmetic is exact. Nested objects and
  arrays inside a player, deck or seat record are not modelled.
\<close>

datatype jsval = JNull | JBool bool | JNum rat | JStr string

type_synonym jsrecord = "string \<rightharpoonup> jsval"

text \<open>
  A JavaScript number where it may leave the finite ones: \<open>Infinity\<close>, \<open>-Infinity\<close> or
  \<open>NaN\<close> come out of a division (\<open>x / 0\<close> is never an error), of an overflow, and of
  \<^verbatim>\<open>Number\<close> applied to a string.
\<close>

datatype jsnum = Fin rat | PosInf | NegInf | NaN

text \<open>
  The built-in conversions between strings and numbers are parameters of the model:
  \<open>toNumber s\<close> is \<^verbatim>\<open>Number(s)\<close> (\<open>None\<close> for \<open>NaN\<close>) and \<open>numToString n\<close> is
  \<^verbatim>\<open>String(n)\<close>. Every theorem below holds for all such conversions. A string that
  \<^verbatim>\<open>Number\<close> reads as an infinity has no counterpart here: stored values are finite.
  The pages that derive a win percentage are modelled with \<open>js_double\<close> below, where such
  a string is read as the infinity it denotes.
\<close>

record js_env =
  toNumber :: "string \<Rightarrow> rat option"
  numToString :: "rat \<Rightarrow> string"

text \<open>Truthiness of a value, as tested by \<^verbatim>\<open>if (v)\<close>, \<^verbatim>\<open>!v\<close> and \<^verbatim>\<open>v ? a : b\<close>.\<close>

fun truthy :: "jsval \<Rightarrow> bool" where
  "truthy JNull = False"
| "truthy (JBool b) = b"
| "truthy (JNum n) = (n \<noteq> 0)"
| "truthy (JStr s) = (s \<noteq> [])"

text \<open>
  The chain \<^verbatim>\<open>r[k1] ?? r[k2] ?? ...\<close>: the first value that is neither \<open>undefined\<close> nor
  \<open>null\<close>. Every reader of such a chain treats a final \<open>null\<close> like \<open>undefined\<close>, so
  both are \<open>None\<close> here.
\<close>

fun coalesce :: "jsrecord \<Rightarrow> string list \<Rightarrow> jsval option" where
  "coalesce r [] = None"
| "coalesce r (k # ks) =
     (case r k of
        None \<Rightarrow> coalesce r ks
      | Some JNull \<Rightarrow> coalesce r ks
      | Some v \<Rightarrow> Some v)"

text \<open>\<^verbatim>\<open>String(v)\<close> for a value.\<close>

fun toStr :: "js_env \<Rightarrow> jsval \<Rightarrow> string" where
  "toStr env JNull = ''null''"
| "toStr env (JBool b) = (if b then ''true'' else ''false'')"
| "toStr env (JNum n) = numToString env n"
| "toStr env (JStr s) = s"

text \<open>
  Strings are ASCII byte strings. \<^verbatim>\<open>toLowerCase\<close> maps \<open>A\<close>..\<open>Z\<close> to \<open>a\<close>..\<open>z\<close> by setting
  bit 5; \<^verbatim>\<open>trim\<close> strips space, tab, line feed, vertical tab, form feed and carriage
  return from both ends; \<^verbatim>\<open>includes\<close> is substring search.
\<close>

definition isUpper :: "char \<Rightarrow> bool" where
  "isUpper c = (let n = (of_char c :: nat) in 65 \<le> n \<and> n \<le> 90)"

definition toLowerChar :: "char \<Rightarrow> char" where
  "toLowerChar c =
     (if isUpper c
      then (case c of Char b0 b1 b2 b3 b4 b5 b6 b7 \<Rightarrow> Char b0 b1 b2 b3 b4 True b6 b7)
      else c)"

definition toLowerCase :: "string \<Rightarrow> string" where
  "toLowerCase s = map toLowerChar s"

definition isWhitespace :: "char \<Rightarrow> bool" where
  "isWhitespace c = (let n = (of_char c :: nat) in n = 32 \<or> (9 \<le> n \<and> n \<le> 13))"

definition trim :: "string \<Rightarrow> string" where
  "trim s = rev (dropWhile isWhitespace (rev (dropWhile isWhitespace s)))"

fun str_includes :: "string \<Rightarrow> string \<Rightarrow> bool" where
  "str_includes [] needle = (needle = [])"
| "str_includes (c # cs) needle = (prefix needle (c # cs) \<or> str_includes cs needle)"

section \<open>Stat deltas\<close>

text \<open>
  \<^verbatim>\<open>interface StatDelta\<close>: five signed integer adjustments. \<^verbatim>\<open>ResultType\<close> of the
  match-history component has three values; the create-game component's slot result
  has a fourth, the empty string of a slot not yet filled in.
\<close>

record StatDelta =
  wins :: int
  losses :: int
  ties :: int
  casualWins :: int
  casualLosses :: int

datatype ResultType = Win | Loss | Tie

datatype SlotResult = SlotWin | SlotLoss | SlotTie | SlotEmpty

text \<open>The inclusion of the three outcomes in the slot results.\<close>

fun slotOf :: "ResultType \<Rightarrow> SlotResult" where
  "slotOf Win = SlotWin"
| "slotOf Loss = SlotLoss"
| "slotOf Tie = SlotTie"

definition zeroDelta :: StatDelta where
  "zeroDelta = \<lparr>wins = 0, losses = 0, ties = 0, casualWins = 0, casualLosses = 0\<rparr>"

text \<open>\<^verbatim>\<open>MatchHistoryComponent.buildDelta\<close> (match.service.ts).\<close>

definition mh_buildDelta :: "ResultType \<Rightarrow> bool \<Rightarrow> StatDelta" where
  "mh_buildDelta res isCasual =
     (let delta = zeroDelta in
      if res = Tie then delta\<lparr>ties := 1\<rparr>
      else if res = Win then
        (let delta = delta\<lparr>wins := 1\<rparr> in
         if isCasual then delta\<lparr>casualWins := 1\<rparr> else delta)
      else if res = Loss then
        (let delta = delta\<lparr>losses := 1\<rparr> in
         if isCasual then delta\<lparr>casualLosses := 1\<rparr> else delta)
      else delta)"

text \<open>\<^verbatim>\<open>CreateGameComponent.buildDelta\<close> (decks.component.ts).\<close>

definition cg_buildDelta :: "SlotResult \<Rightarrow> bool \<Rightarrow> StatDelta" where
  "cg_buildDelta res isCasual =
     (let delta = zeroDelta in
      if res = SlotTie then delta\<lparr>ties := 1\<rparr>
      else if res = SlotWin then
        (let delta = delta\<lparr>wins := 1\<rparr> in
         if isCasual then delta\<lparr>casualWins := 1\<rparr> else delta)
      else if res = SlotLoss then
        (let delta = delta\<lparr>losses := 1\<rparr> in
         if isCasual then delta\<lparr>casualLosses := 1\<rparr> else delta)
      else delta)"

text \<open>\<^verbatim>\<open>CreateGameComponent.buildLossDelta\<close>: the delta a slot contributes to its deck.\<close>

definition cg_buildLossDelta :: "SlotResult \<Rightarrow> bool \<Rightarrow> StatDelta" where
  "cg_buildLossDelta res isCasual =
     (let delta = zeroDelta in
      if res = SlotLoss then
        (let delta = delta\<lparr>losses := 1\<rparr> in
         if isCasual then delta\<lparr>casualLosses := 1\<rparr> else delta)
      else delta)"

text \<open>\<^verbatim>\<open>MatchHistoryComponent.invertDelta\<close>.\<close>

definition invertDelta :: "StatDelta \<Rightarrow> StatDelta" where
  "invertDelta delta =
     \<lparr>wins = - wins delta,
      losses = - losses delta,
      ties = - ties delta,
      casualWins = - casualWins delta,
      casualLosses = - casualLosses delta\<rparr>"

text \<open>\<^verbatim>\<open>mergeDelta\<close>, in both components.\<close>

definition mh_mergeDelta :: "StatDelta \<Rightarrow> StatDelta \<Rightarrow> StatDelta" where
  "mh_mergeDelta base add =
     \<lparr>wins = wins base + wins add,
      losses = losses base + losses add,
      ties = ties base + ties add,
      casualWins = casualWins base + casualWins add,
      casualLosses = casualLosses base + casualLosses add\<rparr>"

definition cg_mergeDelta :: "StatDelta \<Rightarrow> StatDelta \<Rightarrow> StatDelta" where
  "cg_mergeDelta base add =
     \<lparr>wins = wins base + wins add,
      losses = losses base + losses add,
      ties = ties base + ties add,
      casualWins = casualWins base + casualWins add,
      casualLosses = casualLosses base + casualLosses add\<rparr>"

section \<open>Reading loosely typed records\<close>

text \<open>\<^verbatim>\<open>Number(v)\<close> for a value; \<open>None\<close> is \<open>NaN\<close>.\<close>

fun toNum :: "js_env \<Rightarrow> jsval \<Rightarrow> rat option" where
  "toNum env JNull = Some 0"
| "toNum env (JBool b) = Some (if b then 1 else 0)"
| "toNum env (JNum n) = Some n"
| "toNum env (JStr s) = toNumber env s"

text \<open>
  \<^verbatim>\<open>coerceNumber(record, keys)\<close>, the same body in all four components: the first key
  that holds a finite number, or a non-blank string that parses as a number; 0 if none.
  This is its reading in the reconciliation code, on the finite values of \<open>toNumber\<close>;
  the reading of the two pages is \<open>pl_coerceNumber\<close> below.
\<close>

fun coerceNumber :: "js_env \<Rightarrow> jsrecord \<Rightarrow> string list \<Rightarrow> rat" where
  "coerceNumber env r [] = 0"
| "coerceNumber env r (k # ks) =
     (case r k of
        Some (JNum n) \<Rightarrow> n
      | Some (JStr s) \<Rightarrow>
          (if trim s \<noteq> [] then
             (case toNumber env s of
                Some n \<Rightarrow> n
              | None \<Rightarrow> coerceNumber env r ks)
           else coerceNumber env r ks)
      | _ \<Rightarrow> coerceNumber env r ks)"

text \<open>
  The tail shared by every identifier reader: a finite number is returned, a non-blank
  numeric string is parsed, anything else is \<open>undefined\<close>.
\<close>

fun numericId :: "js_env \<Rightarrow> jsval option \<Rightarrow> rat option" where
  "numericId env (Some (JNum n)) = Some n"
| "numericId env (Some (JStr s)) = (if trim s \<noteq> [] then toNumber env s else None)"
| "numericId env _ = None"

definition winsKeys :: "string list" where
  "winsKeys = [''wins'', ''Wins'', ''winCount'', ''totalWins'', ''win_total'']"

definition lossesKeys :: "string list" where
  "lossesKeys = [''losses'', ''Losses'', ''lossCount'', ''totalLosses'', ''loss_total'']"

definition tiesKeys :: "string list" where
  "tiesKeys = [''ties'', ''Ties'', ''tieCount'', ''totalTies'']"

definition casualWinsKeys :: "string list" where
  "casualWinsKeys = [''casualWins'', ''CasualWins'']"

definition casualLossesKeys :: "string list" where
  "casualLossesKeys = [''casualLosses'', ''CasualLosses'']"

definition playerNameKeys :: "string list" where
  "playerNameKeys = [''playerName'', ''PlayerName'', ''name'', ''username'']"

definition ownerIdKeys :: "string list" where
  "ownerIdKeys = [''playerID'', ''PlayerID'', ''playerId'', ''ownerId'']"

section \<open>Update payloads\<close>

text \<open>The canonical shapes written back to the store.\<close>

record PlayerPayload =
  pp_playerId :: rat
  pp_playerName :: string
  pp_wins :: rat
  pp_losses :: rat
  pp_ties :: rat
  pp_casualWins :: rat
  pp_casualLosses :: rat

record DeckPayload =
  dp_deckName :: string
  dp_playerID :: rat
  dp_wins :: rat
  dp_losses :: rat
  dp_ties :: rat
  dp_casualWins :: rat
  dp_casualLosses :: rat

text \<open>
  \<^verbatim>\<open>typeof ownerId === 'number' ? ownerId : Number(ownerId) || 0\<close>, where \<open>ownerId\<close> is
  the owner chain ending in \<^verbatim>\<open>?? 0\<close>.
\<close>

definition ownerOf :: "js_env \<Rightarrow> jsrecord \<Rightarrow> rat" where
  "ownerOf env r =
     (let ownerId = (case coalesce r ownerIdKeys of None \<Rightarrow> JNum 0 | Some v \<Rightarrow> v) in
      case ownerId of
        JNum n \<Rightarrow> n
      | v \<Rightarrow> (case toNum env v of None \<Rightarrow> 0 | Some n \<Rightarrow> n))"

definition displayNameOf :: "js_env \<Rightarrow> jsrecord \<Rightarrow> string" where
  "displayNameOf env r =
     toStr env (case coalesce r playerNameKeys of None \<Rightarrow> JStr ''Unknown'' | Some v \<Rightarrow> v)"

text \<open>
  \<^verbatim>\<open>MatchHistoryComponent.buildPlayerUpdatePayload\<close> and \<^verbatim>\<open>buildDeckUpdatePayload\<close>
  (match.service.ts): the rollback path, with \<^verbatim>\<open>Math.max(0, ...)\<close>.
\<close>

definition mh_buildPlayerUpdatePayload ::
  "js_env \<Rightarrow> jsrecord \<Rightarrow> rat \<Rightarrow> StatDelta \<Rightarrow> PlayerPayload" where
  "mh_buildPlayerUpdatePayload env player playerId delta =
     \<lparr>pp_playerId = playerId,
      pp_playerName = displayNameOf env player,
      pp_wins = max 0 (coerceNumber env player winsKeys + of_int (wins delta)),
      pp_losses = max 0 (coerceNumber env player lossesKeys + of_int (losses delta)),
      pp_ties = max 0 (coerceNumber env player tiesKeys + of_int (ties delta)),
      pp_casualWins =
        max 0 (coerceNumber env player casualWinsKeys + of_int (casualWins delta)),
      pp_casualLosses =
        max 0 (coerceNumber env player casualLossesKeys + of_int (casualLosses delta))\<rparr>"

definition mh_buildDeckUpdatePayload ::
  "js_env \<Rightarrow> jsrecord \<Rightarrow> string \<Rightarrow> StatDelta \<Rightarrow> DeckPayload" where
  "mh_buildDeckUpdatePayload env deck deckName delta =
     \<lparr>dp_deckName = deckName,
      dp_playerID = ownerOf env deck,
      dp_wins = max 0 (coerceNumber env deck winsKeys + of_int (wins delta)),
      dp_losses = max 0 (coerceNumber env deck lossesKeys + of_int (losses delta)),
      dp_ties = max 0 (coerceNumber env deck tiesKeys + of_int (ties delta)),
      dp_casualWins =
        max 0 (coerceNumber env deck casualWinsKeys + of_int (casualWins delta)),
      dp_casualLosses =
        max 0 (coerceNumber env deck casualLossesKeys + of_int (casualLosses delta))\<rparr>"

text \<open>
  \<^verbatim>\<open>CreateGameComponent.buildPlayerUpdatePayload\<close> and \<^verbatim>\<open>buildDeckUpdatePayload\<close>
  (decks.component.ts): the apply path, a plain sum.
\<close>

definition cg_buildPlayerUpdatePayload ::
  "js_env \<Rightarrow> jsrecord \<Rightarrow> rat \<Rightarrow> StatDelta \<Rightarrow> PlayerPayload" where
  "cg_buildPlayerUpdatePayload env player playerId delta =
     \<lparr>pp_playerId = playerId,
      pp_playerName = displayNameOf env player,
      pp_wins = coerceNumber env player winsKeys + of_int (wins delta),
      pp_losses = coerceNumber env player lossesKeys + of_int (losses delta),
      pp_ties = coerceNumber env player tiesKeys + of_int (ties delta),
      pp_casualWins = coerceNumber env player casualWinsKeys + of_int (casualWins delta),
      pp_casualLosses =
        coerceNumber env player casualLossesKeys + of_int (casualLosses delta)\<rparr>"

definition cg_buildDeckUpdatePayload ::
  "js_env \<Rightarrow> jsrecord \<Rightarrow> string \<Rightarrow> StatDelta \<Rightarrow> DeckPayload" where
  "cg_buildDeckUpdatePayload env deck deckName delta =
     \<lparr>dp_deckName = deckName,
      dp_playerID = ownerOf env deck,
      dp_wins = coerceNumber env deck winsKeys + of_int (wins delta),
      dp_losses = coerceNumber env deck lossesKeys + of_int (losses delta),
      dp_ties = coerceNumber env deck tiesKeys + of_int (ties delta),
      dp_casualWins = coerceNumber env deck casualWinsKeys + of_int (casualWins delta),
      dp_casualLosses =
        coerceNumber env deck casualLossesKeys + of_int (casualLosses delta)\<rparr>"

section \<open>Match records and seats\<close>

text \<open>
  \<^verbatim>\<open>interface MatchRecord\<close>, with the fields the reconciliation reads; an optional field
  that is absent is \<open>None\<close>. A seat is a loosely typed record.
\<close>

record MatchRecord =
  playerID :: "rat option"
  deckName :: "string option"
  winnerName :: "string option"
  format :: "string option"
  playerWin :: "bool option"
  opponentOne :: "string option"
  opponentOneDeck :: "string option"
  opponentTwo :: "string option"
  opponentTwoDeck :: "string option"
  opponentThree :: "string option"
  opponentThreeDeck :: "string option"
  result :: "string option"
  seats :: "jsrecord list option"

text \<open>
  An object literal whose values may be \<open>undefined\<close>: reading such a key gives
  \<open>undefined\<close>, as reading an absent key does.
\<close>

definition objOf :: "(string \<times> jsval option) list \<Rightarrow> jsrecord" where
  "objOf kvs k = (case map_of kvs k of Some (Some v) \<Rightarrow> Some v | _ \<Rightarrow> None)"

fun resultStr :: "ResultType \<Rightarrow> string" where
  "resultStr Win = ''win''"
| "resultStr Loss = ''loss''"
| "resultStr Tie = ''tie''"

text \<open>\<^verbatim>\<open>readSeatField\<close>: the first key holding a non-blank string.\<close>

fun readSeatField :: "jsrecord \<Rightarrow> string list \<Rightarrow> string option" where
  "readSeatField seat [] = None"
| "readSeatField seat (k # ks) =
     (case seat k of
        Some (JStr s) \<Rightarrow> (if trim s \<noteq> [] then Some s else readSeatField seat ks)
      | _ \<Rightarrow> readSeatField seat ks)"

text \<open>
  \<^verbatim>\<open>readSeatBool\<close>: the first key holding a boolean, the string \<open>true\<close> or \<open>false\<close>
  in any case, or the number 1 or 0.
\<close>

fun readSeatBool :: "jsrecord \<Rightarrow> string list \<Rightarrow> bool option" where
  "readSeatBool seat [] = None"
| "readSeatBool seat (k # ks) =
     (case seat k of
        Some (JBool b) \<Rightarrow> Some b
      | Some (JStr s) \<Rightarrow>
          (if trim s \<noteq> [] \<and> toLowerCase s = ''true'' then Some True
           else if trim s \<noteq> [] \<and> toLowerCase s = ''false'' then Some False
           else readSeatBool seat ks)
      | Some (JNum n) \<Rightarrow>
          (if n = 1 then Some True
           else if n = 0 then Some False
           else readSeatBool seat ks)
      | _ \<Rightarrow> readSeatBool seat ks)"

text \<open>\<^verbatim>\<open>normalizeResult\<close>: \<open>tie\<close> is looked for before \<open>win\<close>, \<open>win\<close> before \<open>loss\<close>.\<close>

definition normalizeResult :: "string option \<Rightarrow> ResultType option" where
  "normalizeResult v =
     (case v of
        None \<Rightarrow> None
      | Some s \<Rightarrow>
          (if s = [] then None
           else (let normalized = toLowerCase s in
                 if str_includes normalized ''tie'' then Some Tie
                 else if str_includes normalized ''win'' then Some Win
                 else if str_includes normalized ''loss'' then Some Loss
                 else None)))"

definition resultKeys :: "string list" where
  "resultKeys = [''result'', ''Result'', ''outcome'', ''outcomeType'', ''resultType'', ''status'']"

definition tieFlagKeys :: "string list" where
  "tieFlagKeys = [''tie'', ''isTie'']"

definition winFlagKeys :: "string list" where
  "winFlagKeys = [''playerWin'', ''isWinner'', ''winner'', ''won'', ''win'']"

definition seatNameKeys :: "string list" where
  "seatNameKeys = [''playerName'', ''name'', ''username'', ''player'']"

definition seatIdKeys :: "string list" where
  "seatIdKeys = [''playerID'', ''playerId'', ''player_id'', ''id'']"

definition seatDeckKeys :: "string list" where
  "seatDeckKeys = [''deckName'', ''DeckName'', ''name'', ''title'']"

text \<open>\<^verbatim>\<open>getSeatPlayerId\<close>, \<^verbatim>\<open>getSeatPlayerName\<close>, \<^verbatim>\<open>getSeatDeckName\<close>.\<close>

definition getSeatPlayerId :: "js_env \<Rightarrow> jsrecord \<Rightarrow> rat option" where
  "getSeatPlayerId env seat = numericId env (coalesce seat seatIdKeys)"

definition getSeatPlayerName :: "jsrecord \<Rightarrow> string option" where
  "getSeatPlayerName seat = readSeatField seat seatNameKeys"

definition getSeatDeckName :: "js_env \<Rightarrow> jsrecord \<Rightarrow> string option" where
  "getSeatDeckName env seat =
     (case coalesce seat seatDeckKeys of
        None \<Rightarrow> None
      | Some v \<Rightarrow> (if truthy v then Some (toStr env v) else None))"

text \<open>\<^verbatim>\<open>resolveSeatResult\<close>: the fallback chain, in the order of the source.\<close>

definition resolveSeatResult :: "js_env \<Rightarrow> jsrecord \<Rightarrow> MatchRecord \<Rightarrow> ResultType option" where
  "resolveSeatResult env seat match =
     (case normalizeResult (readSeatField seat resultKeys) of
        Some direct \<Rightarrow> Some direct
      | None \<Rightarrow>
     (if readSeatBool seat tieFlagKeys = Some True then Some Tie
      else
     (case readSeatBool seat winFlagKeys of
        Some winFlag \<Rightarrow> Some (if winFlag then Win else Loss)
      | None \<Rightarrow>
     (let matchResult = normalizeResult (result match) in
      if matchResult = Some Tie then Some Tie
      else
     (let seatPlayerId = getSeatPlayerId env seat in
      case (if seatPlayerId \<noteq> None \<and> playerID match \<noteq> None
               \<and> seatPlayerId = playerID match
            then playerWin match else None) of
        Some pw \<Rightarrow> Some (if pw then Win else Loss)
      | None \<Rightarrow>
     (case (readSeatField seat seatNameKeys, winnerName match) of
        (Some seatName, Some wn) \<Rightarrow>
          (if seatName \<noteq> [] \<and> wn \<noteq> [] then
             (if toLowerCase (trim seatName) = toLowerCase (trim wn) then Some Win
              else if matchResult = Some Win then Some Loss
              else None)
           else None)
      | _ \<Rightarrow> None))))))"

text \<open>\<^verbatim>\<open>resolveOpponentResult\<close>, for the seats synthesized from a legacy match.\<close>

definition resolveOpponentResult :: "string \<Rightarrow> MatchRecord \<Rightarrow> ResultType option" where
  "resolveOpponentResult opponentName match =
     (let matchResult = normalizeResult (result match) in
      if matchResult = Some Tie then Some Tie
      else if (case winnerName match of
                 None \<Rightarrow> False
               | Some wn \<Rightarrow> wn \<noteq> []
                   \<and> toLowerCase (trim opponentName) = toLowerCase (trim wn))
      then Some Win
      else if matchResult = Some Win \<or> matchResult = Some Loss then Some Loss
      else None)"

text \<open>\<^verbatim>\<open>isCasualFormat\<close>.\<close>

definition isCasualFormat :: "string option \<Rightarrow> bool" where
  "isCasualFormat v =
     (case v of
        None \<Rightarrow> False
      | Some s \<Rightarrow> (if s = [] then False else str_includes (toLowerCase s) ''casual''))"

text \<open>
  \<^verbatim>\<open>getMatchSeats\<close>: the explicit seat list, or the seats synthesized from the flat
  shape of a legacy match (a primary player and up to three opponents).
\<close>

definition opponentSeat :: "MatchRecord \<Rightarrow> string \<Rightarrow> string option \<Rightarrow> jsrecord" where
  "opponentSeat match opponent deck =
     objOf [(''playerName'', Some (JStr opponent)),
            (''deckName'', map_option JStr deck),
            (''result'',
               Some (case resolveOpponentResult opponent match of
                       None \<Rightarrow> JNull
                     | Some r \<Rightarrow> JStr (resultStr r))),
            (''format'', map_option JStr (format match))]"

definition opponentSeats ::
  "MatchRecord \<Rightarrow> string option \<Rightarrow> string option \<Rightarrow> jsrecord list" where
  "opponentSeats match opponent deck =
     (case opponent of
        None \<Rightarrow> []
      | Some name \<Rightarrow> (if name \<noteq> [] then [opponentSeat match name deck] else []))"

definition strTruthy :: "string option \<Rightarrow> bool" where
  "strTruthy v = (case v of None \<Rightarrow> False | Some s \<Rightarrow> s \<noteq> [])"

definition numTruthy :: "rat option \<Rightarrow> bool" where
  "numTruthy v = (case v of None \<Rightarrow> False | Some n \<Rightarrow> n \<noteq> 0)"

definition getMatchSeats :: "MatchRecord \<Rightarrow> jsrecord list" where
  "getMatchSeats match =
     (case seats match of
        Some ss \<Rightarrow> ss
      | None \<Rightarrow>
          (let normalizedResult = normalizeResult (result match) in
           (if numTruthy (playerID match) \<or> strTruthy (deckName match)
                 \<or> strTruthy (winnerName match)
            then [objOf [(''playerID'', map_option JNum (playerID match)),
                         (''deckName'', map_option JStr (deckName match)),
                         (''playerName'', map_option JStr (winnerName match)),
                         (''result'',
                            Some (JStr (resultStr
                              (case normalizedResult of
                                 Some r \<Rightarrow> r
                               | None \<Rightarrow>
                                   (if playerWin match = Some True then Win else Loss))))),
                         (''format'', map_option JStr (format match))]]
            else [])
           @ opponentSeats match (opponentOne match) (opponentOneDeck match)
           @ opponentSeats match (opponentTwo match) (opponentTwoDeck match)
           @ opponentSeats match (opponentThree match) (opponentThreeDeck match)))"

section \<open>Insertion-ordered maps\<close>

text \<open>
  A JavaScript \<^verbatim>\<open>Map\<close> iterates in insertion order, and \<^verbatim>\<open>set\<close> on a key already
  present keeps its position. It is an association list with distinct keys;
  \<^verbatim>\<open>get\<close> is \<^const>\<open>map_of\<close>.
\<close>

fun mapSet :: "'k \<Rightarrow> 'v \<Rightarrow> ('k \<times> 'v) list \<Rightarrow> ('k \<times> 'v) list" where
  "mapSet k v [] = [(k, v)]"
| "mapSet k v ((k', v') # kvs) =
     (if k' = k then (k, v) # kvs else (k', v') # mapSet k v kvs)"

text \<open>
  \<^verbatim>\<open>map.set(key, existing ? mergeDelta(existing, delta) : { ...delta })\<close>, in each
  component.
\<close>

definition mh_accumulate ::
  "'k \<Rightarrow> StatDelta \<Rightarrow> ('k \<times> StatDelta) list \<Rightarrow> ('k \<times> StatDelta) list" where
  "mh_accumulate k delta m =
     mapSet k (case map_of m k of
                 Some existing \<Rightarrow> mh_mergeDelta existing delta
               | None \<Rightarrow> delta) m"

definition cg_accumulate ::
  "'k \<Rightarrow> StatDelta \<Rightarrow> ('k \<times> StatDelta) list \<Rightarrow> ('k \<times> StatDelta) list" where
  "cg_accumulate k delta m =
     mapSet k (case map_of m k of
                 Some existing \<Rightarrow> cg_mergeDelta existing delta
               | None \<Rightarrow> delta) m"

section \<open>Rollback on match deletion\<close>

text \<open>
  An update call to the store, or \<^verbatim>\<open>of(null)\<close> for an identity that is not in the
  fetched snapshot.
\<close>

datatype Request =
  UpdatePlayer rat PlayerPayload
| UpdateDeck string DeckPayload
| NoRequest

definition playerIdKeys :: "string list" where
  "playerIdKeys = [''playerID'', ''playerId'', ''id'']"

definition deckNameKeys :: "string list" where
  "deckNameKeys = [''DeckName'', ''deckName'', ''name'', ''title'']"

text \<open>
  \<^verbatim>\<open>MatchHistoryComponent.getPlayerId\<close>, and \<^verbatim>\<open>getDeckNameForUpdate\<close>, the same body in
  the match-history and create-game components.
\<close>

definition mh_getPlayerId :: "js_env \<Rightarrow> jsrecord \<Rightarrow> rat option" where
  "mh_getPlayerId env player = numericId env (coalesce player playerIdKeys)"

definition getDeckNameForUpdate :: "js_env \<Rightarrow> jsrecord \<Rightarrow> string option" where
  "getDeckNameForUpdate env deck =
     (case coalesce deck deckNameKeys of
        None \<Rightarrow> None
      | Some v \<Rightarrow> (if truthy v then Some (toStr env v) else None))"

definition findPlayerById :: "js_env \<Rightarrow> jsrecord list \<Rightarrow> rat \<Rightarrow> jsrecord option" where
  "findPlayerById env players playerId =
     find (\<lambda>player. mh_getPlayerId env player = Some playerId) players"

definition findPlayerByName :: "js_env \<Rightarrow> jsrecord list \<Rightarrow> string \<Rightarrow> jsrecord option" where
  "findPlayerByName env players playerName =
     (let normalized = toLowerCase playerName in
      find (\<lambda>player.
              case coalesce player playerNameKeys of
                None \<Rightarrow> False
              | Some v \<Rightarrow> truthy v \<and> toLowerCase (toStr env v) = normalized) players)"

definition findDeckByName :: "js_env \<Rightarrow> jsrecord list \<Rightarrow> string \<Rightarrow> jsrecord option" where
  "findDeckByName env decks dn =
     (let normalized = toLowerCase dn in
      find (\<lambda>deck.
              case getDeckNameForUpdate env deck of
                None \<Rightarrow> False
              | Some candidate \<Rightarrow> candidate \<noteq> [] \<and> toLowerCase candidate = normalized) decks)"

text \<open>
  The three accumulators of \<^verbatim>\<open>rollbackStats\<close>: deltas by player id, by lower-cased
  player name, and by deck name.
\<close>

record RollbackMaps =
  playerMap :: "(rat \<times> StatDelta) list"
  nameMap :: "(string \<times> StatDelta) list"
  deckMap :: "(string \<times> StatDelta) list"

text \<open>The body of \<^verbatim>\<open>seats.forEach\<close> in \<^verbatim>\<open>rollbackStats\<close>.\<close>

definition rollbackSeat ::
  "js_env \<Rightarrow> MatchRecord \<Rightarrow> RollbackMaps \<Rightarrow> jsrecord \<Rightarrow> RollbackMaps" where
  "rollbackSeat env match maps seat =
     (case resolveSeatResult env seat match of
        None \<Rightarrow> maps
      | Some res \<Rightarrow>
          (let fmt = (case readSeatField seat [''format'', ''Format''] of
                        Some f \<Rightarrow> Some f
                      | None \<Rightarrow> format match);
               isCasual = isCasualFormat fmt;
               delta = invertDelta (mh_buildDelta res isCasual);
               maps1 =
                 (case getSeatPlayerId env seat of
                    Some playerId \<Rightarrow>
                      maps\<lparr>playerMap := mh_accumulate playerId delta (playerMap maps)\<rparr>
                  | None \<Rightarrow>
                      (case getSeatPlayerName seat of
                         None \<Rightarrow> maps
                       | Some playerName \<Rightarrow>
                           (if playerName \<noteq> [] then
                              maps\<lparr>nameMap :=
                                mh_accumulate (toLowerCase playerName) delta (nameMap maps)\<rparr>
                            else maps)))
           in case getSeatDeckName env seat of
                None \<Rightarrow> maps1
              | Some dn \<Rightarrow>
                  (if dn \<noteq> [] then
                     maps1\<lparr>deckMap := mh_accumulate dn delta (deckMap maps1)\<rparr>
                   else maps1)))"

definition rollbackMaps :: "js_env \<Rightarrow> MatchRecord \<Rightarrow> jsrecord list \<Rightarrow> RollbackMaps" where
  "rollbackMaps env match ss =
     foldl (rollbackSeat env match) \<lparr>playerMap = [], nameMap = [], deckMap = []\<rparr> ss"

definition mh_playerRequest :: "js_env \<Rightarrow> jsrecord list \<Rightarrow> rat \<times> StatDelta \<Rightarrow> Request" where
  "mh_playerRequest env players entry =
     (case entry of (playerId, delta) \<Rightarrow>
        (case findPlayerById env players playerId of
           None \<Rightarrow> NoRequest
         | Some player \<Rightarrow>
             UpdatePlayer playerId (mh_buildPlayerUpdatePayload env player playerId delta)))"

definition mh_nameRequest :: "js_env \<Rightarrow> jsrecord list \<Rightarrow> string \<times> StatDelta \<Rightarrow> Request" where
  "mh_nameRequest env players entry =
     (case entry of (playerName, delta) \<Rightarrow>
        (case findPlayerByName env players playerName of
           None \<Rightarrow> NoRequest
         | Some player \<Rightarrow>
             (case mh_getPlayerId env player of
                None \<Rightarrow> NoRequest
              | Some playerId \<Rightarrow>
                  UpdatePlayer playerId
                    (mh_buildPlayerUpdatePayload env player playerId delta))))"

definition mh_deckRequest :: "js_env \<Rightarrow> jsrecord list \<Rightarrow> string \<times> StatDelta \<Rightarrow> Request" where
  "mh_deckRequest env decks entry =
     (case entry of (dn, delta) \<Rightarrow>
        (case findDeckByName env decks dn of
           None \<Rightarrow> NoRequest
         | Some deck \<Rightarrow> UpdateDeck dn (mh_buildDeckUpdatePayload env deck dn delta)))"

text \<open>
  \<^verbatim>\<open>rollbackStats\<close>: the requests issued for a deleted match, given the fetched
  snapshots of players and decks (a \<open>null\<close> snapshot is the empty list, by \<^verbatim>\<open>?? []\<close>).
  No seat, or no accumulated entry, issues nothing.
\<close>

definition rollbackStats ::
  "js_env \<Rightarrow> MatchRecord \<Rightarrow> jsrecord list \<Rightarrow> jsrecord list \<Rightarrow> Request list" where
  "rollbackStats env match players decks =
     (let ss = getMatchSeats match in
      if ss = [] then []
      else
        (let maps = rollbackMaps env match ss in
         map (mh_playerRequest env players) (playerMap maps)
         @ map (mh_nameRequest env players) (nameMap maps)
         @ map (mh_deckRequest env decks) (deckMap maps)))"

section \<open>Apply on match creation\<close>

text \<open>
  \<^verbatim>\<open>interface GameSlot\<close> of the create-game form: indices into the component's player
  and deck lists (\<open>null\<close> is \<open>None\<close>) and the slot's result.
\<close>

record GameSlot =
  playerIndex :: "nat option"
  deckIndex :: "nat option"
  slotResult :: SlotResult

datatype GameFormat = Casual | Cedh

datatype error = TypeError

text \<open>Array indexing: out of range is \<open>undefined\<close>.\<close>

definition at_index :: "'a list \<Rightarrow> nat \<Rightarrow> 'a option" where
  "at_index xs i = (if i < length xs then Some (xs ! i) else None)"

text \<open>\<^verbatim>\<open>CreateGameComponent.getPlayerId\<close>: \<open>undefined\<close> for no player.\<close>

definition cg_getPlayerId :: "js_env \<Rightarrow> jsrecord option \<Rightarrow> rat option" where
  "cg_getPlayerId env player =
     (case player of
        None \<Rightarrow> None
      | Some r \<Rightarrow> numericId env (coalesce r playerIdKeys))"

record ApplyMaps =
  playerDeltaMap :: "(rat \<times> StatDelta) list"
  deckDeltaMap :: "(string \<times> StatDelta) list"

text \<open>
  The body of \<^verbatim>\<open>slots.forEach\<close> in \<^verbatim>\<open>updateStatsForMatch\<close>. The player of a slot gets
  \<^verbatim>\<open>buildDelta\<close>, its deck gets \<^verbatim>\<open>buildLossDelta\<close>. A deck index out of range reads a
  property of \<open>undefined\<close> in \<^verbatim>\<open>getDeckNameForUpdate\<close>, which throws.
\<close>

definition applySlot ::
  "js_env \<Rightarrow> bool \<Rightarrow> jsrecord list \<Rightarrow> jsrecord list \<Rightarrow> ApplyMaps \<Rightarrow> GameSlot
     \<Rightarrow> error + ApplyMaps" where
  "applySlot env isCasual players decks maps slot =
     (let delta = cg_buildDelta (slotResult slot) isCasual;
          deckDelta = cg_buildLossDelta (slotResult slot) isCasual;
          maps1 =
            (case playerIndex slot of
               None \<Rightarrow> maps
             | Some i \<Rightarrow>
                 (case cg_getPlayerId env (at_index players i) of
                    None \<Rightarrow> maps
                  | Some playerId \<Rightarrow>
                      maps\<lparr>playerDeltaMap :=
                        cg_accumulate playerId delta (playerDeltaMap maps)\<rparr>))
      in case deckIndex slot of
           None \<Rightarrow> Inr maps1
         | Some j \<Rightarrow>
             (case at_index decks j of
                None \<Rightarrow> Inl TypeError
              | Some deck \<Rightarrow>
                  (case getDeckNameForUpdate env deck of
                     None \<Rightarrow> Inr maps1
                   | Some dn \<Rightarrow>
                       (if dn \<noteq> [] then
                          Inr (maps1\<lparr>deckDeltaMap :=
                                 cg_accumulate dn deckDelta (deckDeltaMap maps1)\<rparr>)
                        else Inr maps1))))"

fun applySlots ::
  "js_env \<Rightarrow> bool \<Rightarrow> jsrecord list \<Rightarrow> jsrecord list \<Rightarrow> ApplyMaps \<Rightarrow> GameSlot list
     \<Rightarrow> error + ApplyMaps" where
  "applySlots env isCasual players decks maps [] = Inr maps"
| "applySlots env isCasual players decks maps (slot # rest) =
     (case applySlot env isCasual players decks maps slot of
        Inl e \<Rightarrow> Inl e
      | Inr maps1 \<Rightarrow> applySlots env isCasual players decks maps1 rest)"

definition cg_playerRequest :: "js_env \<Rightarrow> jsrecord list \<Rightarrow> rat \<times> StatDelta \<Rightarrow> Request" where
  "cg_playerRequest env players entry =
     (case entry of (playerId, delta) \<Rightarrow>
        (case find (\<lambda>item. cg_getPlayerId env (Some item) = Some playerId) players of
           None \<Rightarrow> NoRequest
         | Some player \<Rightarrow>
             UpdatePlayer playerId (cg_buildPlayerUpdatePayload env player playerId delta)))"

definition cg_deckRequest :: "js_env \<Rightarrow> jsrecord list \<Rightarrow> string \<times> StatDelta \<Rightarrow> Request" where
  "cg_deckRequest env decks entry =
     (case entry of (dn, delta) \<Rightarrow>
        (case find (\<lambda>item.
                      case getDeckNameForUpdate env item of
                        None \<Rightarrow> False
                      | Some candidate \<Rightarrow>
                          candidate \<noteq> [] \<and> toLowerCase candidate = toLowerCase dn) decks of
           None \<Rightarrow> NoRequest
         | Some deck \<Rightarrow> UpdateDeck dn (cg_buildDeckUpdatePayload env deck dn delta)))"

text \<open>
  \<^verbatim>\<open>updateStatsForMatch\<close>: from the form's slots and format and the component's lists
  of players and decks, the accumulated deltas; then, with the fetched snapshots, the
  requests issued. Empty maps issue nothing.
\<close>

definition applyMaps ::
  "js_env \<Rightarrow> GameSlot list \<Rightarrow> GameFormat \<Rightarrow> jsrecord list \<Rightarrow> jsrecord list
     \<Rightarrow> error + ApplyMaps" where
  "applyMaps env slots gameFormat players decks =
     applySlots env (gameFormat = Casual) players decks
       \<lparr>playerDeltaMap = [], deckDeltaMap = []\<rparr> slots"

definition updateStatsForMatch ::
  "js_env \<Rightarrow> GameSlot list \<Rightarrow> GameFormat \<Rightarrow> jsrecord list \<Rightarrow> jsrecord list
     \<Rightarrow> jsrecord list \<Rightarrow> jsrecord list \<Rightarrow> error + Request list" where
  "updateStatsForMatch env slots gameFormat players decks fetchedPlayers fetchedDecks =
     (case applyMaps env slots gameFormat players decks of
        Inl e \<Rightarrow> Inl e
      | Inr maps \<Rightarrow>
          (if playerDeltaMap maps = [] \<and> deckDeltaMap maps = [] then Inr []
           else Inr (map (cg_playerRequest env fetchedPlayers) (playerDeltaMap maps)
                     @ map (cg_deckRequest env fetchedDecks) (deckDeltaMap maps))))"

section \<open>Favorite decks\<close>

text \<open>
  \<^verbatim>\<open>normalizeDeckKey\<close>: trimmed, lower-cased, every character outside \<open>a-z0-9\<close> removed.
\<close>

definition isLowerAlnum :: "char \<Rightarrow> bool" where
  "isLowerAlnum c =
     (let n = (of_char c :: nat) in (97 \<le> n \<and> n \<le> 122) \<or> (48 \<le> n \<and> n \<le> 57))"

definition normalizeDeckKey :: "string \<Rightarrow> string" where
  "normalizeDeckKey v = filter isLowerAlnum (toLowerCase (trim v))"

text \<open>
  \<^verbatim>\<open>deckMap.set(deckKey, (deckMap.get(deckKey) ?? 0) + 1)\<close> on the deck map of a player
  key, created on first use.
\<close>

definition bumpCount ::
  "'k \<Rightarrow> string \<Rightarrow> ('k \<times> (string \<times> nat) list) list \<Rightarrow> ('k \<times> (string \<times> nat) list) list" where
  "bumpCount playerKey deckKey counts =
     (let dmap = (case map_of counts playerKey of Some m \<Rightarrow> m | None \<Rightarrow> []) in
      mapSet playerKey
        (mapSet deckKey ((case map_of dmap deckKey of Some c \<Rightarrow> c | None \<Rightarrow> 0) + 1) dmap)
        counts)"

text \<open>\<^verbatim>\<open>bumpName\<close> and \<^verbatim>\<open>bumpId\<close> of \<^verbatim>\<open>buildFavoriteDeckMaps\<close>.\<close>

definition bumpName ::
  "string option \<Rightarrow> string option \<Rightarrow> (string \<times> (string \<times> nat) list) list
     \<Rightarrow> (string \<times> (string \<times> nat) list) list" where
  "bumpName pname dname counts =
     (case (pname, dname) of
        (Some pn, Some dn) \<Rightarrow>
          (if pn = [] \<or> dn = [] then counts
           else (let nameKey = toLowerCase (trim pn);
                     deckKey = normalizeDeckKey dn
                 in if nameKey = [] \<or> deckKey = [] then counts
                    else bumpCount nameKey deckKey counts))
      | _ \<Rightarrow> counts)"

definition bumpId ::
  "rat option \<Rightarrow> string option \<Rightarrow> (rat \<times> (string \<times> nat) list) list
     \<Rightarrow> (rat \<times> (string \<times> nat) list) list" where
  "bumpId pid dname counts =
     (case (pid, dname) of
        (Some playerId, Some dn) \<Rightarrow>
          (if dn = [] then counts
           else (let deckKey = normalizeDeckKey dn
                 in if deckKey = [] then counts
                    else bumpCount playerId deckKey counts))
      | _ \<Rightarrow> counts)"

record FavoriteCounts =
  countsByName :: "(string \<times> (string \<times> nat) list) list"
  countsById :: "(rat \<times> (string \<times> nat) list) list"

text \<open>The body of \<^verbatim>\<open>matches.forEach\<close> in \<^verbatim>\<open>buildFavoriteDeckMaps\<close>.\<close>

definition countMatch :: "FavoriteCounts \<Rightarrow> MatchRecord \<Rightarrow> FavoriteCounts" where
  "countMatch counts match =
     (let c1 = counts\<lparr>countsById := bumpId (playerID match) (deckName match) (countsById counts)\<rparr>;
          c2 = (if \<not> numTruthy (playerID match)
                then c1\<lparr>countsByName :=
                       bumpName (winnerName match) (deckName match) (countsByName c1)\<rparr>
                else c1);
          c3 = c2\<lparr>countsByName :=
                 bumpName (opponentOne match) (opponentOneDeck match) (countsByName c2)\<rparr>;
          c4 = c3\<lparr>countsByName :=
                 bumpName (opponentTwo match) (opponentTwoDeck match) (countsByName c3)\<rparr>
      in c4\<lparr>countsByName :=
            bumpName (opponentThree match) (opponentThreeDeck match) (countsByName c4)\<rparr>)"

text \<open>
  The inner loop over one player's deck counts: a deck replaces the best one only on a
  strictly higher count, starting from the empty name and count \<open>-1\<close>.
\<close>

definition bestDeckOf :: "(string \<times> nat) list \<Rightarrow> string" where
  "bestDeckOf dmap =
     fst (foldl (\<lambda>(bestDeck, bestCount) (dn, count).
                   if int count > bestCount then (dn, int count) else (bestDeck, bestCount))
                ([], - 1) dmap)"

definition favoritesOf :: "('k \<times> (string \<times> nat) list) list \<Rightarrow> ('k \<times> string) list" where
  "favoritesOf counts =
     foldl (\<lambda>favorites (playerKey, dmap).
              (let bestDeck = bestDeckOf dmap in
               if bestDeck \<noteq> [] then mapSet playerKey bestDeck favorites else favorites))
           [] counts"

record FavoriteDeckMaps =
  byId :: "(rat \<times> string) list"
  byName :: "(string \<times> string) list"

definition buildFavoriteDeckMaps :: "MatchRecord list \<Rightarrow> FavoriteDeckMaps" where
  "buildFavoriteDeckMaps matches =
     (let counts = foldl countMatch \<lparr>countsByName = [], countsById = []\<rparr> matches in
      \<lparr>byId = favoritesOf (countsById counts),
       byName = favoritesOf (countsByName counts)\<rparr>)"

text \<open>
  \<^verbatim>\<open>PlayersComponent.buildFavoriteDeckMap\<close> (match.service.ts): one map, keyed by
  \<^verbatim>\<open>id:<playerID>\<close> and \<^verbatim>\<open>name:<opponent>\<close>, counting decks under their trimmed names.
\<close>

definition pl_bump ::
  "string \<Rightarrow> string option \<Rightarrow> (string \<times> (string \<times> nat) list) list
     \<Rightarrow> (string \<times> (string \<times> nat) list) list" where
  "pl_bump playerKey dname counts =
     (case dname of
        None \<Rightarrow> counts
      | Some dn \<Rightarrow>
          (if dn = [] then counts
           else (let deckKey = trim dn in
                 if deckKey = [] then counts else bumpCount playerKey deckKey counts)))"

definition pl_bumpOpponent ::
  "string option \<Rightarrow> string option \<Rightarrow> (string \<times> (string \<times> nat) list) list
     \<Rightarrow> (string \<times> (string \<times> nat) list) list" where
  "pl_bumpOpponent pname deck counts =
     (case pname of
        None \<Rightarrow> counts
      | Some pn \<Rightarrow>
          (if pn \<noteq> [] then
             pl_bump (''name:'' @ pn)
               (case deck of None \<Rightarrow> None | Some d \<Rightarrow> (if d \<noteq> [] then Some d else None))
               counts
           else counts))"

definition pl_countMatch ::
  "js_env \<Rightarrow> (string \<times> (string \<times> nat) list) list \<Rightarrow> MatchRecord
     \<Rightarrow> (string \<times> (string \<times> nat) list) list" where
  "pl_countMatch env counts match =
     (let c1 = (case playerID match of
                  None \<Rightarrow> counts
                | Some pid \<Rightarrow> pl_bump (''id:'' @ numToString env pid) (deckName match) counts);
          c2 = pl_bumpOpponent (opponentOne match) (opponentOneDeck match) c1;
          c3 = pl_bumpOpponent (opponentTwo match) (opponentTwoDeck match) c2
      in pl_bumpOpponent (opponentThree match) (opponentThreeDeck match) c3)"

definition buildFavoriteDeckMap :: "js_env \<Rightarrow> MatchRecord list \<Rightarrow> (string \<times> string) list" where
  "buildFavoriteDeckMap env matches = favoritesOf (foldl (pl_countMatch env) [] matches)"

section \<open>Win percentage\<close>

text \<open>
  The players and decks pages compute a percentage in double precision from whatever a
  record holds. The built-in operations are parameters of the model: \<open>strToNum s\<close> is
  \<^verbatim>\<open>Number(s)\<close> for a string, which is a finite number, an infinity or \<open>NaN\<close>;
  \<open>fadd\<close>, \<open>fdiv\<close> and \<open>fmul\<close> are the rounded sum, quotient (by a divisor other than 0)
  and product of two finite numbers, which may overflow to an infinity. The operators
  \<^verbatim>\<open>+\<close>, \<^verbatim>\<open>/\<close> and \<^verbatim>\<open>*\<close> extend them to the infinities and \<open>NaN\<close> by the rules of the
  language. The model does not tell \<open>-0\<close> from \<open>0\<close>; neither do \<^verbatim>\<open>!\<close> and \<^verbatim>\<open>===\<close>, and
  the only divisor of the code is one that \<^verbatim>\<open>!\<close> has let through.
\<close>

record js_double =
  strToNum :: "string \<Rightarrow> jsnum"
  fadd :: "rat \<Rightarrow> rat \<Rightarrow> jsnum"
  fdiv :: "rat \<Rightarrow> rat \<Rightarrow> jsnum"
  fmul :: "rat \<Rightarrow> rat \<Rightarrow> jsnum"

fun js_add :: "js_double \<Rightarrow> jsnum \<Rightarrow> jsnum \<Rightarrow> jsnum" where
  "js_add env (Fin a) (Fin b) = fadd env a b"
| "js_add env NaN y = NaN"
| "js_add env x NaN = NaN"
| "js_add env PosInf NegInf = NaN"
| "js_add env NegInf PosInf = NaN"
| "js_add env PosInf y = PosInf"
| "js_add env x PosInf = PosInf"
| "js_add env NegInf y = NegInf"
| "js_add env x NegInf = NegInf"

fun js_div :: "js_double \<Rightarrow> jsnum \<Rightarrow> jsnum \<Rightarrow> jsnum" where
  "js_div env (Fin a) (Fin b) =
     (if b = 0 then (if a = 0 then NaN else if 0 < a then PosInf else NegInf)
      else fdiv env a b)"
| "js_div env (Fin a) PosInf = Fin 0"
| "js_div env (Fin a) NegInf = Fin 0"
| "js_div env PosInf (Fin b) = (if 0 \<le> b then PosInf else NegInf)"
| "js_div env NegInf (Fin b) = (if 0 \<le> b then NegInf else PosInf)"
| "js_div env x y = NaN"

text \<open>The product of a number and a finite literal.\<close>

fun js_mul :: "js_double \<Rightarrow> jsnum \<Rightarrow> rat \<Rightarrow> jsnum" where
  "js_mul env (Fin a) b = fmul env a b"
| "js_mul env PosInf b = (if b = 0 then NaN else if 0 < b then PosInf else NegInf)"
| "js_mul env NegInf b = (if b = 0 then NaN else if 0 < b then NegInf else PosInf)"
| "js_mul env NaN b = NaN"

text \<open>\<^verbatim>\<open>!x\<close> for a number: true of \<open>0\<close> and of \<open>NaN\<close>.\<close>

definition falsy :: "jsnum \<Rightarrow> bool" where
  "falsy x = (x = Fin 0 \<or> x = NaN)"

text \<open>
  \<^verbatim>\<open>coerceNumber\<close> as the two pages run it. A number field is finite (the records are
  decoded from JSON) and is returned. A non-blank string is returned as \<^verbatim>\<open>Number\<close> reads
  it unless that is \<open>NaN\<close>: the string branch has no finiteness test, so
  \<^verbatim>\<open>'Infinity'\<close> yields \<open>Infinity\<close>.
\<close>

fun pl_coerceNumber :: "js_double \<Rightarrow> jsrecord \<Rightarrow> string list \<Rightarrow> jsnum" where
  "pl_coerceNumber env r [] = Fin 0"
| "pl_coerceNumber env r (k # ks) =
     (case r k of
        Some (JNum n) \<Rightarrow> Fin n
      | Some (JStr s) \<Rightarrow>
          (if trim s \<noteq> [] \<and> strToNum env s \<noteq> NaN then strToNum env s
           else pl_coerceNumber env r ks)
      | _ \<Rightarrow> pl_coerceNumber env r ks)"

definition pctKeys :: "string list" where
  "pctKeys = [''winPercentage'', ''winPct'', ''win_percent'']"

text \<open>\<^verbatim>\<open>getWins\<close> and \<^verbatim>\<open>getLosses\<close> of the players and decks pages.\<close>

definition getWins :: "js_double \<Rightarrow> jsrecord \<Rightarrow> jsnum" where
  "getWins env r = pl_coerceNumber env r [''wins'', ''winCount'', ''totalWins'', ''win_total'']"

definition getLosses :: "js_double \<Rightarrow> jsrecord \<Rightarrow> jsnum" where
  "getLosses env r =
     pl_coerceNumber env r [''losses'', ''lossCount'', ''totalLosses'', ''loss_total'']"

text \<open>
  \<^verbatim>\<open>getWinPercentageValue\<close>, the same body in \<^verbatim>\<open>PlayersComponent\<close> and
  \<^verbatim>\<open>DecksComponent\<close>: the first non-null percentage field if it is a number; else 0 when
  \<^verbatim>\<open>!total\<close>; else \<^verbatim>\<open>(wins / total) * 100\<close>.
\<close>

definition getWinPercentageValue :: "js_double \<Rightarrow> jsrecord \<Rightarrow> jsnum" where
  "getWinPercentageValue env r =
     (case coalesce r pctKeys of
        Some (JNum direct) \<Rightarrow> Fin direct
      | _ \<Rightarrow>
          (let ws = getWins env r;
               ls = getLosses env r;
               total = js_add env ws ls
           in if falsy total then Fin 0 else js_mul env (js_div env ws total) 100))"

section \<open>Observations and sample data\<close>

text \<open>The five counters an update call writes; none for \<^verbatim>\<open>of(null)\<close>.\<close>

fun requestCounters :: "Request \<Rightarrow> rat list" where
  "requestCounters (UpdatePlayer playerId p) =
     [pp_wins p, pp_losses p, pp_ties p, pp_casualWins p, pp_casualLosses p]"
| "requestCounters (UpdateDeck dn d) =
     [dp_wins d, dp_losses d, dp_ties d, dp_casualWins d, dp_casualLosses d]"
| "requestCounters NoRequest = []"

text \<open>A string contains a word case-insensitively: some part of it lower-cases to the word.\<close>

definition containsCI :: "string \<Rightarrow> string \<Rightarrow> bool" where
  "containsCI s w = (\<exists>pre mid post. s = pre @ mid @ post \<and> toLowerCase mid = w)"

text \<open>
  The conversions for records whose identifiers and counters are JSON numbers and whose
  names are strings: no string there is read as a number and no number is printed.
\<close>

definition plainEnv :: js_env where
  "plainEnv = \<lparr>toNumber = (\<lambda>s. None), numToString = (\<lambda>n. [])\<rparr>"

text \<open>The five stored counters of a record, as the payload builders read them.\<close>

definition storedCounters :: "js_env \<Rightarrow> jsrecord \<Rightarrow> rat list" where
  "storedCounters env r =
     [coerceNumber env r winsKeys, coerceNumber env r lossesKeys, coerceNumber env r tiesKeys,
      coerceNumber env r casualWinsKeys, coerceNumber env r casualLossesKeys]"

text \<open>
  The delta accumulated under a key (zero when the key has no entry), the merge of a
  list of deltas, and a delta with no negative component.
\<close>

definition deltaAt :: "('k \<times> StatDelta) list \<Rightarrow> 'k \<Rightarrow> StatDelta" where
  "deltaAt m k = (case map_of m k of Some d \<Rightarrow> d | None \<Rightarrow> zeroDelta)"

definition sumDeltas :: "StatDelta list \<Rightarrow> StatDelta" where
  "sumDeltas ds = foldl cg_mergeDelta zeroDelta ds"

definition nonnegDelta :: "StatDelta \<Rightarrow> bool" where
  "nonnegDelta d =
     (0 \<le> wins d \<and> 0 \<le> losses d \<and> 0 \<le> ties d \<and> 0 \<le> casualWins d \<and> 0 \<le> casualLosses d)"

text \<open>
  The player identity and the deck name under which \<^verbatim>\<open>updateStatsForMatch\<close> files a
  slot, when it has them.
\<close>

definition slotPlayerId :: "js_env \<Rightarrow> jsrecord list \<Rightarrow> GameSlot \<Rightarrow> rat option" where
  "slotPlayerId env players slot =
     (case playerIndex slot of
        None \<Rightarrow> None
      | Some i \<Rightarrow> cg_getPlayerId env (at_index players i))"

definition slotDeckName :: "js_env \<Rightarrow> jsrecord list \<Rightarrow> GameSlot \<Rightarrow> string option" where
  "slotDeckName env decks slot =
     (case deckIndex slot of
        None \<Rightarrow> None
      | Some j \<Rightarrow>
          (case at_index decks j of
             None \<Rightarrow> None
           | Some deck \<Rightarrow>
               (case getDeckNameForUpdate env deck of
                  None \<Rightarrow> None
                | Some dn \<Rightarrow> (if dn \<noteq> [] then Some dn else None))))"




text \<open>
  The league of the spec's end-to-end scenarios: four players and their decks. In the
  first scenario player 1 wins with deck Rona and player 2 loses with deck Kess, in a
  competitive format. Player 1 has no stored win.
\<close>

definition scenarioPlayers :: "jsrecord list" where
  "scenarioPlayers =
     [[''playerID'' \<mapsto> JNum 1, ''playerName'' \<mapsto> JStr ''Ann'',
       ''wins'' \<mapsto> JNum 0, ''losses'' \<mapsto> JNum 2],
      [''playerID'' \<mapsto> JNum 2, ''playerName'' \<mapsto> JStr ''Bob'',
       ''wins'' \<mapsto> JNum 4, ''losses'' \<mapsto> JNum 1],
      [''playerID'' \<mapsto> JNum 3, ''playerName'' \<mapsto> JStr ''Cy'',
       ''wins'' \<mapsto> JNum 1, ''losses'' \<mapsto> JNum 1],
      [''playerID'' \<mapsto> JNum 4, ''playerName'' \<mapsto> JStr ''Dee'',
       ''wins'' \<mapsto> JNum 2, ''losses'' \<mapsto> JNum 5]]"

definition scenarioDecks :: "jsrecord list" where
  "scenarioDecks =
     [[''deckName'' \<mapsto> JStr ''Rona'', ''playerID'' \<mapsto> JNum 1, ''wins'' \<mapsto> JNum 3],
      [''deckName'' \<mapsto> JStr ''Kess'', ''playerID'' \<mapsto> JNum 2, ''losses'' \<mapsto> JNum 0],
      [''deckName'' \<mapsto> JStr ''Atraxa'', ''playerID'' \<mapsto> JNum 3, ''wins'' \<mapsto> JNum 1],
      [''deckName'' \<mapsto> JStr ''Yuriko'', ''playerID'' \<mapsto> JNum 4, ''losses'' \<mapsto> JNum 2]]"

definition emptyMatch :: MatchRecord where
  "emptyMatch =
     \<lparr>playerID = None, deckName = None, winnerName = None, format = None,
      playerWin = None, opponentOne = None, opponentOneDeck = None, opponentTwo = None,
      opponentTwoDeck = None, opponentThree = None, opponentThreeDeck = None,
      result = None, seats = None\<rparr>"

definition scenarioMatch :: MatchRecord where
  "scenarioMatch =
     emptyMatch\<lparr>format := Some ''CEDH'',
       seats := Some
        [[''playerID'' \<mapsto> JNum 1, ''deckName'' \<mapsto> JStr ''Rona'', ''result'' \<mapsto> JStr ''win''],
         [''playerID'' \<mapsto> JNum 2, ''deckName'' \<mapsto> JStr ''Kess'',
          ''result'' \<mapsto> JStr ''loss'']]\<rparr>"

text \<open>
  The create-game form filled in for a four-player game that the first player wins, and
  the same league with a negative stored win count for that player.
\<close>

definition winLossSlots :: "GameSlot list" where
  "winLossSlots =
     [\<lparr>playerIndex = Some 0, deckIndex = Some 0, slotResult = SlotWin\<rparr>,
      \<lparr>playerIndex = Some 1, deckIndex = Some 1, slotResult = SlotLoss\<rparr>,
      \<lparr>playerIndex = Some 2, deckIndex = Some 2, slotResult = SlotLoss\<rparr>,
      \<lparr>playerIndex = Some 3, deckIndex = Some 3, slotResult = SlotLoss\<rparr>]"

definition negativePlayers :: "jsrecord list" where
  "negativePlayers =
     [[''playerID'' \<mapsto> JNum 1, ''playerName'' \<mapsto> JStr ''Ann'',
       ''wins'' \<mapsto> JNum (- 2), ''losses'' \<mapsto> JNum 2],
      [''playerID'' \<mapsto> JNum 2, ''playerName'' \<mapsto> JStr ''Bob'',
       ''wins'' \<mapsto> JNum 4, ''losses'' \<mapsto> JNum 1],
      [''playerID'' \<mapsto> JNum 3, ''playerName'' \<mapsto> JStr ''Cy'',
       ''wins'' \<mapsto> JNum 1, ''losses'' \<mapsto> JNum 1],
      [''playerID'' \<mapsto> JNum 4, ''playerName'' \<mapsto> JStr ''Dee'',
       ''wins'' \<mapsto> JNum 2, ''losses'' \<mapsto> JNum 5]]"

text \<open>
  The match record that \<^verbatim>\<open>buildMatchPayload\<close> saves for that game: the winner is the
  primary player and the other three seats are the opponents, by name.
\<close>

definition winLossMatch :: MatchRecord where
  "winLossMatch =
     emptyMatch\<lparr>playerID := Some 1, deckName := Some ''Rona'', winnerName := Some ''Ann'',
       format := Some ''CEDH'', playerWin := Some True,
       opponentOne := Some ''Bob'', opponentOneDeck := Some ''Kess'',
       opponentTwo := Some ''Cy'', opponentTwoDeck := Some ''Atraxa'',
       opponentThree := Some ''Dee'', opponentThreeDeck := Some ''Yuriko'',
       result := Some ''WIN''\<rparr>"

text \<open>
  What the apply walk accumulates for that game, and the update calls it issues, as a
  function of the win count written for the first player.
\<close>

definition winLossMaps :: ApplyMaps where
  "winLossMaps =
     \<lparr>playerDeltaMap =
        [(1, \<lparr>wins = 1, losses = 0, ties = 0, casualWins = 0, casualLosses = 0\<rparr>),
         (2, \<lparr>wins = 0, losses = 1, ties = 0, casualWins = 0, casualLosses = 0\<rparr>),
         (3, \<lparr>wins = 0, losses = 1, ties = 0, casualWins = 0, casualLosses = 0\<rparr>),
         (4, \<lparr>wins = 0, losses = 1, ties = 0, casualWins = 0, casualLosses = 0\<rparr>)],
      deckDeltaMap =
        [(''Rona'', \<lparr>wins = 0, losses = 0, ties = 0, casualWins = 0, casualLosses = 0\<rparr>),
         (''Kess'', \<lparr>wins = 0, losses = 1, ties = 0, casualWins = 0, casualLosses = 0\<rparr>),
         (''Atraxa'', \<lparr>wins = 0, losses = 1, ties = 0, casualWins = 0, casualLosses = 0\<rparr>),
         (''Yuriko'', \<lparr>wins = 0, losses = 1, ties = 0, casualWins = 0, casualLosses = 0\<rparr>)]\<rparr>"

definition winLossRequests :: "rat \<Rightarrow> Request list" where
  "winLossRequests winsWritten =
     [UpdatePlayer 1
        \<lparr>pp_playerId = 1, pp_playerName = ''Ann'', pp_wins = winsWritten, pp_losses = 2,
         pp_ties = 0, pp_casualWins = 0, pp_casualLosses = 0\<rparr>,
      UpdatePlayer 2
        \<lparr>pp_playerId = 2, pp_playerName = ''Bob'', pp_wins = 4, pp_losses = 2,
         pp_ties = 0, pp_casualWins = 0, pp_casualLosses = 0\<rparr>,
      UpdatePlayer 3
        \<lparr>pp_playerId = 3, pp_playerName = ''Cy'', pp_wins = 1, pp_losses = 2,
         pp_ties = 0, pp_casualWins = 0, pp_casualLosses = 0\<rparr>,
      UpdatePlayer 4
        \<lparr>pp_playerId = 4, pp_playerName = ''Dee'', pp_wins = 2, pp_losses = 6,
         pp_ties = 0, pp_casualWins = 0, pp_casualLosses = 0\<rparr>,
      UpdateDeck ''Rona''
        \<lparr>dp_deckName = ''Rona'', dp_playerID = 1, dp_wins = 3, dp_losses = 0,
         dp_ties = 0, dp_casualWins = 0, dp_casualLosses = 0\<rparr>,
      UpdateDeck ''Kess''
        \<lparr>dp_deckName = ''Kess'', dp_playerID = 2, dp_wins = 0, dp_losses = 1,
         dp_ties = 0, dp_casualWins = 0, dp_casualLosses = 0\<rparr>,
      UpdateDeck ''Atraxa''
        \<lparr>dp_deckName = ''Atraxa'', dp_playerID = 3, dp_wins = 1, dp_losses = 1,
         dp_ties = 0, dp_casualWins = 0, dp_casualLosses = 0\<rparr>,
      UpdateDeck ''Yuriko''
        \<lparr>dp_deckName = ''Yuriko'', dp_playerID = 4, dp_wins = 0, dp_losses = 3,
         dp_ties = 0, dp_casualWins = 0, dp_casualLosses = 0\<rparr>]"

text \<open>A seat whose explicit result contradicts its win flag, and one with only a flag.\<close>

definition conflictingSeat :: jsrecord where
  "conflictingSeat = [''result'' \<mapsto> JStr ''WIN'', ''playerWin'' \<mapsto> JBool False]"

definition flagSeat :: jsrecord where
  "flagSeat = [''status'' \<mapsto> JStr ''pending'', ''playerWin'' \<mapsto> JBool True]"

text \<open>
  Seats with a tie flag, with only a name, and with only an identifier; a legacy match won
  by its primary player, and a tied one.
\<close>

definition tieFlagSeat :: jsrecord where
  "tieFlagSeat = [''playerName'' \<mapsto> JStr ''Bob'', ''isTie'' \<mapsto> JBool True]"

definition annSeat :: jsrecord where
  "annSeat = [''playerName'' \<mapsto> JStr ''Ann'']"

definition bobSeat :: jsrecord where
  "bobSeat = [''playerName'' \<mapsto> JStr ''Bob'']"

definition primarySeat :: jsrecord where
  "primarySeat = [''playerID'' \<mapsto> JNum 1]"

definition legacyWin :: MatchRecord where
  "legacyWin =
     emptyMatch\<lparr>playerID := Some 1, playerWin := Some True, winnerName := Some ''ann '',
       result := Some ''WIN''\<rparr>"

definition legacyTie :: MatchRecord where
  "legacyTie = emptyMatch\<lparr>winnerName := Some ''Tie'', result := Some ''TIE''\<rparr>"

text \<open>
  A match in which a named player took a seat with a deck, and the history of the spec's
  favorite-deck example: player A with Mono Red twice and Izzet once.
\<close>

definition playedMatch :: "string \<Rightarrow> string \<Rightarrow> MatchRecord" where
  "playedMatch pname dname =
     emptyMatch\<lparr>opponentOne := Some pname, opponentOneDeck := Some dname\<rparr>"

definition playerAMatches :: "MatchRecord list" where
  "playerAMatches =
     [playedMatch ''A'' ''Mono Red'', playedMatch ''A'' ''Mono Red'', playedMatch ''A'' ''Izzet'']"

text \<open>
  Records for the win percentage: three wins in four games, a new player, a record that
  carries its percentage, a record whose win counter is the string \<^verbatim>\<open>'Infinity'\<close>, and
  one whose counters cancel. Their finite sums, quotients and products (\<open>3 + 1\<close>,
  \<open>3 / 4\<close>, \<open>0.75 * 100\<close>) are doubles, so rounding returns them as they are; the one
  string that the records hold as a counter is \<^verbatim>\<open>'Infinity'\<close>.
\<close>

definition exactArith :: js_double where
  "exactArith =
     \<lparr>strToNum = (\<lambda>s. if s = ''Infinity'' then PosInf else NaN),
      fadd = (\<lambda>a b. Fin (a + b)), fdiv = (\<lambda>a b. Fin (a / b)),
      fmul = (\<lambda>a b. Fin (a * b))\<rparr>"

definition threeOneRecord :: jsrecord where
  "threeOneRecord =
     [''playerName'' \<mapsto> JStr ''Bob'', ''wins'' \<mapsto> JNum 3, ''losses'' \<mapsto> JNum 1]"

definition newPlayerRecord :: jsrecord where
  "newPlayerRecord =
     [''playerName'' \<mapsto> JStr ''Cy'', ''wins'' \<mapsto> JNum 0, ''losses'' \<mapsto> JNum 0]"

definition directRecord :: jsrecord where
  "directRecord =
     [''playerName'' \<mapsto> JStr ''Dee'', ''winPercentage'' \<mapsto> JNum (125 / 2),
      ''wins'' \<mapsto> JNum 1, ''losses'' \<mapsto> JNum 0]"

definition infinityRecord :: jsrecord where
  "infinityRecord =
     [''playerName'' \<mapsto> JStr ''Eve'', ''wins'' \<mapsto> JStr ''Infinity'',
      ''losses'' \<mapsto> JNum 1]"

definition zeroSumRecord :: jsrecord where
  "zeroSumRecord =
     [''playerName'' \<mapsto> JStr ''Ann'', ''wins'' \<mapsto> JNum 3, ''losses'' \<mapsto> JNum (- 3)]"

section \<open>The delta builder\<close>

lemma mh_buildDelta_cases:
  "mh_buildDelta Win c =
     \<lparr>wins = 1, losses = 0, ties = 0, casualWins = (if c then 1 else 0), casualLosses = 0\<rparr>"
  "mh_buildDelta Loss c =
     \<lparr>wins = 0, losses = 1, ties = 0, casualWins = 0, casualLosses = (if c then 1 else 0)\<rparr>"
  "mh_buildDelta Tie c =
     \<lparr>wins = 0, losses = 0, ties = 1, casualWins = 0, casualLosses = 0\<rparr>"
  by (simp_all add: mh_buildDelta_def zeroDelta_def)

lemma cg_buildDelta_cases:
  "cg_buildDelta SlotWin c =
     \<lparr>wins = 1, losses = 0, ties = 0, casualWins = (if c then 1 else 0), casualLosses = 0\<rparr>"
  "cg_buildDelta SlotLoss c =
     \<lparr>wins = 0, losses = 1, ties = 0, casualWins = 0, casualLosses = (if c then 1 else 0)\<rparr>"
  "cg_buildDelta SlotTie c =
     \<lparr>wins = 0, losses = 0, ties = 1, casualWins = 0, casualLosses = 0\<rparr>"
  "cg_buildDelta SlotEmpty c = zeroDelta"
  by (simp_all add: cg_buildDelta_def zeroDelta_def)

text \<open>
  C5. For every result among win, loss and tie and every casual flag, \<open>buildDelta\<close> of
  either component sets exactly one of wins, losses and ties to 1 and the other two to 0;
  casualWins is 1 exactly for a casual win, casualLosses is 1 exactly for a casual loss,
  and both are 0 otherwise. The function is total: it returns a delta on every input.
\<close>

theorem buildDelta_one_outcome:
  "wins (mh_buildDelta r c) = (if r = Win then 1 else 0)
   \<and> losses (mh_buildDelta r c) = (if r = Loss then 1 else 0)
   \<and> ties (mh_buildDelta r c) = (if r = Tie then 1 else 0)
   \<and> wins (mh_buildDelta r c) + losses (mh_buildDelta r c) + ties (mh_buildDelta r c) = 1
   \<and> casualWins (mh_buildDelta r c) = (if r = Win \<and> c then 1 else 0)
   \<and> casualLosses (mh_buildDelta r c) = (if r = Loss \<and> c then 1 else 0)
   \<and> cg_buildDelta (slotOf r) c = mh_buildDelta r c"
  by (cases r) (simp_all add: cg_buildDelta_cases mh_buildDelta_cases)

section \<open>The delta accumulator\<close>

text \<open>
  C8. Merging deltas is commutative and associative, in both components.
\<close>

theorem mergeDelta_comm_assoc:
  "mh_mergeDelta a b = mh_mergeDelta b a
   \<and> mh_mergeDelta (mh_mergeDelta a b) c = mh_mergeDelta a (mh_mergeDelta b c)
   \<and> cg_mergeDelta a b = cg_mergeDelta b a
   \<and> cg_mergeDelta (cg_mergeDelta a b) c = cg_mergeDelta a (cg_mergeDelta b c)"
  by (simp add: mh_mergeDelta_def cg_mergeDelta_def)

text \<open>
  C9. Merging a delta with its inversion gives the zero delta: all five components are 0.
\<close>

theorem mergeDelta_invertDelta_zero:
  "mh_mergeDelta a (invertDelta a) = zeroDelta
   \<and> wins (mh_mergeDelta a (invertDelta a)) = 0
   \<and> losses (mh_mergeDelta a (invertDelta a)) = 0
   \<and> ties (mh_mergeDelta a (invertDelta a)) = 0
   \<and> casualWins (mh_mergeDelta a (invertDelta a)) = 0
   \<and> casualLosses (mh_mergeDelta a (invertDelta a)) = 0"
  by (simp add: mh_mergeDelta_def invertDelta_def zeroDelta_def)

section \<open>Strings\<close>

lemma str_includes_sublist: "str_includes hay needle = sublist needle hay"
  by (induction hay) (auto simp: sublist_Cons_right)

lemma sublist_map_iff:
  "sublist xs (map f s) = (\<exists>pre mid post. s = pre @ mid @ post \<and> map f mid = xs)"
proof
  assume "sublist xs (map f s)"
  then obtain ps ss where "map f s = ps @ xs @ ss"
    by (auto simp: sublist_def)
  then obtain pre rest where s: "s = pre @ rest" and rest: "xs @ ss = map f rest"
    by (auto simp: map_eq_append_conv)
  from rest obtain mid post where "rest = mid @ post" "map f mid = xs"
    by (auto simp: append_eq_map_conv)
  with s show "\<exists>pre mid post. s = pre @ mid @ post \<and> map f mid = xs"
    by blast
next
  assume "\<exists>pre mid post. s = pre @ mid @ post \<and> map f mid = xs"
  then obtain pre mid post where "s = pre @ mid @ post" "map f mid = xs"
    by blast
  then have "map f s = map f pre @ xs @ map f post"
    by simp
  then show "sublist xs (map f s)"
    unfolding sublist_def by blast
qed

lemma str_includes_lower: "str_includes (toLowerCase s) w = containsCI s w"
  unfolding containsCI_def toLowerCase_def str_includes_sublist by (rule sublist_map_iff)

lemma containsCI_Nil: "w \<noteq> [] \<Longrightarrow> \<not> containsCI [] w"
  by (auto simp: containsCI_def toLowerCase_def)

lemma trim_Nil: "trim [] = []"
  by (simp add: trim_def)

section \<open>Format classification\<close>

lemma isCasualFormat_Some: "isCasualFormat (Some s) = containsCI s ''casual''"
  by (cases "s = []") (simp_all add: isCasualFormat_def str_includes_lower containsCI_Nil)

lemma isCasualFormat_example: "isCasualFormat (Some ''Casual-EDH'')"
  by code_simp

text \<open>
  C7. A format is casual exactly when some part of it lower-cases to \<open>casual\<close>, so
  \<open>Casual-EDH\<close> is casual; the empty string and an absent format are competitive.
\<close>

theorem isCasualFormat_iff:
  "isCasualFormat (Some s) =
     (\<exists>pre mid post. s = pre @ mid @ post \<and> toLowerCase mid = ''casual'')
   \<and> isCasualFormat (Some ''Casual-EDH'') = True
   \<and> isCasualFormat (Some []) = False
   \<and> isCasualFormat None = False"
proof -
  have "isCasualFormat (Some s) =
     (\<exists>pre mid post. s = pre @ mid @ post \<and> toLowerCase mid = ''casual'')"
    using isCasualFormat_Some [of s] by (simp add: containsCI_def)
  moreover have "isCasualFormat (Some []) = False" "isCasualFormat None = False"
    by (simp_all add: isCasualFormat_def)
  ultimately show ?thesis
    using isCasualFormat_example by simp
qed

section \<open>Result resolution\<close>

lemma normalizeResult_Some:
  "normalizeResult (Some s) =
     (if containsCI s ''tie'' then Some Tie
      else if containsCI s ''win'' then Some Win
      else if containsCI s ''loss'' then Some Loss
      else None)"
  by (cases "s = []") (simp_all add: normalizeResult_def str_includes_lower containsCI_Nil)

lemma readSeatField_nonblank: "readSeatField seat ks = Some s \<Longrightarrow> trim s \<noteq> []"
  by (induction ks) (auto split: option.splits jsval.splits if_splits)

lemma readSeatField_nonempty: "readSeatField seat ks = Some s \<Longrightarrow> s \<noteq> []"
  using readSeatField_nonblank trim_Nil by fastforce

lemma rule_direct:
  "normalizeResult (readSeatField seat resultKeys) = Some r
   \<longrightarrow> resolveSeatResult env seat match = Some r"
  by (simp add: resolveSeatResult_def)

lemma rule_tie_flag:
  "normalizeResult (readSeatField seat resultKeys) = None
   \<and> readSeatBool seat tieFlagKeys = Some True
   \<longrightarrow> resolveSeatResult env seat match = Some Tie"
  by (simp add: resolveSeatResult_def)

lemma rule_win_flag:
  "normalizeResult (readSeatField seat resultKeys) = None
   \<and> readSeatBool seat tieFlagKeys \<noteq> Some True
   \<and> readSeatBool seat winFlagKeys = Some b
   \<longrightarrow> resolveSeatResult env seat match = Some (if b then Win else Loss)"
  by (simp add: resolveSeatResult_def)

lemma rule_match_tie:
  "normalizeResult (readSeatField seat resultKeys) = None
   \<and> readSeatBool seat tieFlagKeys \<noteq> Some True
   \<and> readSeatBool seat winFlagKeys = None
   \<and> normalizeResult (result match) = Some Tie
   \<longrightarrow> resolveSeatResult env seat match = Some Tie"
  by (simp add: resolveSeatResult_def)

lemma rule_primary_player:
  "normalizeResult (readSeatField seat resultKeys) = None
   \<and> readSeatBool seat tieFlagKeys \<noteq> Some True
   \<and> readSeatBool seat winFlagKeys = None
   \<and> normalizeResult (result match) \<noteq> Some Tie
   \<and> getSeatPlayerId env seat = Some i \<and> playerID match = Some i
   \<and> playerWin match = Some pw
   \<longrightarrow> resolveSeatResult env seat match = Some (if pw then Win else Loss)"
  by (simp add: resolveSeatResult_def)

lemma rule_winner_name:
  "normalizeResult (readSeatField seat resultKeys) = None
   \<and> readSeatBool seat tieFlagKeys \<noteq> Some True
   \<and> readSeatBool seat winFlagKeys = None
   \<and> normalizeResult (result match) \<noteq> Some Tie
   \<and> \<not> (getSeatPlayerId env seat \<noteq> None \<and> getSeatPlayerId env seat = playerID match
          \<and> playerWin match \<noteq> None)
   \<and> readSeatField seat seatNameKeys = Some sn \<and> winnerName match = Some wn \<and> wn \<noteq> []
   \<longrightarrow> resolveSeatResult env seat match =
         (if toLowerCase (trim sn) = toLowerCase (trim wn) then Some Win
          else if normalizeResult (result match) = Some Win then Some Loss
          else None)"
proof (intro impI, elim conjE)
  assume sn: "readSeatField seat seatNameKeys = Some sn"
  assume "normalizeResult (readSeatField seat resultKeys) = None"
    "readSeatBool seat tieFlagKeys \<noteq> Some True"
    "readSeatBool seat winFlagKeys = None"
    "normalizeResult (result match) \<noteq> Some Tie"
    "\<not> (getSeatPlayerId env seat \<noteq> None \<and> getSeatPlayerId env seat = playerID match
        \<and> playerWin match \<noteq> None)"
    "winnerName match = Some wn" "wn \<noteq> []"
  with sn readSeatField_nonempty [OF sn]
  show "resolveSeatResult env seat match =
         (if toLowerCase (trim sn) = toLowerCase (trim wn) then Some Win
          else if normalizeResult (result match) = Some Win then Some Loss
          else None)"
    by (auto simp add: resolveSeatResult_def Let_def)
qed

lemma resolveSeatResult_None_iff:
  "(resolveSeatResult env seat match = None) =
     (normalizeResult (readSeatField seat resultKeys) = None
      \<and> readSeatBool seat tieFlagKeys \<noteq> Some True
      \<and> readSeatBool seat winFlagKeys = None
      \<and> normalizeResult (result match) \<noteq> Some Tie
      \<and> \<not> (getSeatPlayerId env seat \<noteq> None \<and> getSeatPlayerId env seat = playerID match
             \<and> playerWin match \<noteq> None)
      \<and> \<not> (\<exists>sn wn. readSeatField seat seatNameKeys = Some sn
             \<and> winnerName match = Some wn \<and> wn \<noteq> []
             \<and> (toLowerCase (trim sn) = toLowerCase (trim wn)
                  \<or> normalizeResult (result match) = Some Win)))"
proof (cases "normalizeResult (readSeatField seat resultKeys)")
  case (Some r)
  then show ?thesis by (simp add: resolveSeatResult_def)
next
  case direct: None
  show ?thesis
  proof (cases "readSeatBool seat tieFlagKeys = Some True")
    case True
    with direct show ?thesis by (simp add: resolveSeatResult_def)
  next
    case tie: False
    show ?thesis
    proof (cases "readSeatBool seat winFlagKeys")
      case (Some b)
      with direct tie show ?thesis by (simp add: resolveSeatResult_def)
    next
      case win: None
      show ?thesis
      proof (cases "normalizeResult (result match) = Some Tie")
        case True
        with direct tie win show ?thesis by (simp add: resolveSeatResult_def)
      next
        case mres: False
        show ?thesis
        proof (cases "getSeatPlayerId env seat \<noteq> None
                        \<and> getSeatPlayerId env seat = playerID match
                        \<and> playerWin match \<noteq> None")
          case True
          with direct tie win mres show ?thesis
            by (auto simp add: resolveSeatResult_def)
        next
          case idr: False
          show ?thesis
          proof (cases "\<exists>sn wn. readSeatField seat seatNameKeys = Some sn
                          \<and> winnerName match = Some wn \<and> wn \<noteq> []")
            case True
            then obtain sn wn where n: "readSeatField seat seatNameKeys = Some sn"
              "winnerName match = Some wn" "wn \<noteq> []"
              by blast
            with rule_winner_name [of seat match env sn wn] direct tie win mres idr
            show ?thesis
              by auto
          next
            case False
            with direct tie win mres idr show ?thesis
              by (auto simp add: resolveSeatResult_def Let_def split: option.splits)
          qed
        qed
      qed
    qed
  qed
qed

lemma conflictingSeat_field: "readSeatField conflictingSeat resultKeys = Some ''WIN''"
  by code_simp

lemma normalizeResult_WIN: "normalizeResult (Some ''WIN'') = Some Win"
  by code_simp

lemma conflictingSeat_win: "resolveSeatResult env conflictingSeat match = Some Win"
  using rule_direct [of conflictingSeat Win env match]
  by (simp add: conflictingSeat_field normalizeResult_WIN)

lemma conflictingSeat_flag: "readSeatBool conflictingSeat winFlagKeys = Some False"
  by code_simp

text \<open>
  C6. \<^verbatim>\<open>resolveSeatResult\<close> applies its rules in priority order. A seat whose first
  non-blank result-like string field contains \<open>tie\<close>, \<open>win\<close> or \<open>loss\<close> in any case
  (looked for in that order) resolves to that outcome whatever its flags and its match say:
  the seat with result \<open>WIN\<close> and \<open>playerWin\<close> false resolves to a win. Below that come the
  tie flag, the win flag, a tied match, the primary player's win flag and the winner's name,
  each only when all rules before it are silent; \<open>null\<close> is returned exactly when no rule
  applies.
\<close>

theorem resolveSeatResult_priority:
  "(normalizeResult (readSeatField seat resultKeys) = Some r
      \<longrightarrow> resolveSeatResult env seat match = Some r)
   \<and> normalizeResult (Some s) =
       (if containsCI s ''tie'' then Some Tie
        else if containsCI s ''win'' then Some Win
        else if containsCI s ''loss'' then Some Loss
        else None)
   \<and> (readSeatBool conflictingSeat winFlagKeys = Some False
        \<and> resolveSeatResult env conflictingSeat match = Some Win)
   \<and> (normalizeResult (readSeatField seat resultKeys) = None
        \<and> readSeatBool seat tieFlagKeys = Some True
      \<longrightarrow> resolveSeatResult env seat match = Some Tie)
   \<and> (normalizeResult (readSeatField seat resultKeys) = None
        \<and> readSeatBool seat tieFlagKeys \<noteq> Some True
        \<and> readSeatBool seat winFlagKeys = Some b
      \<longrightarrow> resolveSeatResult env seat match = Some (if b then Win else Loss))
   \<and> (normalizeResult (readSeatField seat resultKeys) = None
        \<and> readSeatBool seat tieFlagKeys \<noteq> Some True
        \<and> readSeatBool seat winFlagKeys = None
        \<and> normalizeResult (result match) = Some Tie
      \<longrightarrow> resolveSeatResult env seat match = Some Tie)
   \<and> (normalizeResult (readSeatField seat resultKeys) = None
        \<and> readSeatBool seat tieFlagKeys \<noteq> Some True
        \<and> readSeatBool seat winFlagKeys = None
        \<and> normalizeResult (result match) \<noteq> Some Tie
        \<and> getSeatPlayerId env seat = Some i \<and> playerID match = Some i
        \<and> playerWin match = Some pw
      \<longrightarrow> resolveSeatResult env seat match = Some (if pw then Win else Loss))
   \<and> (normalizeResult (readSeatField seat resultKeys) = None
        \<and> readSeatBool seat tieFlagKeys \<noteq> Some True
        \<and> readSeatBool seat winFlagKeys = None
        \<and> normalizeResult (result match) \<noteq> Some Tie
        \<and> \<not> (getSeatPlayerId env seat \<noteq> None
               \<and> getSeatPlayerId env seat = playerID match
               \<and> playerWin match \<noteq> None)
        \<and> readSeatField seat seatNameKeys = Some sn
        \<and> winnerName match = Some wn \<and> wn \<noteq> []
      \<longrightarrow> resolveSeatResult env seat match =
            (if toLowerCase (trim sn) = toLowerCase (trim wn) then Some Win
             else if normalizeResult (result match) = Some Win then Some Loss
             else None))
   \<and> (resolveSeatResult env seat match = None) =
       (normalizeResult (readSeatField seat resultKeys) = None
        \<and> readSeatBool seat tieFlagKeys \<noteq> Some True
        \<and> readSeatBool seat winFlagKeys = None
        \<and> normalizeResult (result match) \<noteq> Some Tie
        \<and> \<not> (getSeatPlayerId env seat \<noteq> None
               \<and> getSeatPlayerId env seat = playerID match
               \<and> playerWin match \<noteq> None)
        \<and> \<not> (\<exists>sn wn. readSeatField seat seatNameKeys = Some sn
               \<and> winnerName match = Some wn \<and> wn \<noteq> []
               \<and> (toLowerCase (trim sn) = toLowerCase (trim wn)
                    \<or> normalizeResult (result match) = Some Win)))"
  by (intro conjI rule_direct normalizeResult_Some conflictingSeat_flag conflictingSeat_win
      rule_tie_flag rule_win_flag rule_match_tie rule_primary_player rule_winner_name
      resolveSeatResult_None_iff)

lemma sample_direct:
  "normalizeResult (readSeatField conflictingSeat resultKeys) = Some Win"
  "normalizeResult (readSeatField flagSeat resultKeys) = None"
  "normalizeResult (readSeatField tieFlagSeat resultKeys) = None"
  "normalizeResult (readSeatField annSeat resultKeys) = None"
  "normalizeResult (readSeatField bobSeat resultKeys) = None"
  "normalizeResult (readSeatField primarySeat resultKeys) = None"
  by code_simp+

lemma sample_flags:
  "readSeatBool tieFlagSeat tieFlagKeys = Some True"
  "readSeatBool flagSeat tieFlagKeys = None"
  "readSeatBool flagSeat winFlagKeys = Some True"
  "readSeatBool annSeat tieFlagKeys = None"
  "readSeatBool annSeat winFlagKeys = None"
  "readSeatBool bobSeat tieFlagKeys = None"
  "readSeatBool bobSeat winFlagKeys = None"
  "readSeatBool primarySeat tieFlagKeys = None"
  "readSeatBool primarySeat winFlagKeys = None"
  by code_simp+

lemma sample_matches:
  "normalizeResult (result legacyTie) = Some Tie"
  "normalizeResult (result legacyWin) = Some Win"
  "normalizeResult (result emptyMatch) = None"
  "playerID legacyWin = Some 1"
  "playerWin legacyWin = Some True"
  "winnerName legacyWin = Some ''ann ''"
  "winnerName emptyMatch = None"
  "playerID emptyMatch = None"
  by code_simp+

lemma sample_ids:
  "getSeatPlayerId plainEnv primarySeat = Some 1"
  "getSeatPlayerId plainEnv annSeat = None"
  "getSeatPlayerId plainEnv bobSeat = None"
  by code_simp+

lemma sample_names:
  "readSeatField annSeat seatNameKeys = Some ''Ann''"
  "readSeatField bobSeat seatNameKeys = Some ''Bob''"
  "toLowerCase (trim ''Ann'') = toLowerCase (trim ''ann '')"
  "toLowerCase (trim ''Bob'') \<noteq> toLowerCase (trim ''ann '')"
  by code_simp+

theorem resolveSeatResult_priority_witness:
  "resolveSeatResult plainEnv conflictingSeat scenarioMatch = Some Win
   \<and> resolveSeatResult plainEnv tieFlagSeat legacyWin = Some Tie
   \<and> resolveSeatResult plainEnv flagSeat legacyTie = Some Win
   \<and> resolveSeatResult plainEnv bobSeat legacyTie = Some Tie
   \<and> resolveSeatResult plainEnv primarySeat legacyWin = Some Win
   \<and> resolveSeatResult plainEnv annSeat legacyWin = Some Win
   \<and> resolveSeatResult plainEnv bobSeat legacyWin = Some Loss
   \<and> resolveSeatResult plainEnv bobSeat emptyMatch = None"
proof -
  have "resolveSeatResult plainEnv conflictingSeat scenarioMatch = Some Win"
    using resolveSeatResult_priority
      [where seat = conflictingSeat and r = Win and env = plainEnv and match = scenarioMatch]
    by (simp add: sample_direct)
  moreover have "resolveSeatResult plainEnv tieFlagSeat legacyWin = Some Tie"
    using resolveSeatResult_priority
      [where seat = tieFlagSeat and env = plainEnv and match = legacyWin]
    by (simp add: sample_direct sample_flags)
  moreover have "resolveSeatResult plainEnv flagSeat legacyTie = Some Win"
    using resolveSeatResult_priority
      [where seat = flagSeat and env = plainEnv and match = legacyTie and b = True]
    by (simp add: sample_direct sample_flags)
  moreover have "resolveSeatResult plainEnv bobSeat legacyTie = Some Tie"
    using resolveSeatResult_priority
      [where seat = bobSeat and env = plainEnv and match = legacyTie]
    by (simp add: sample_direct sample_flags sample_matches)
  moreover have "resolveSeatResult plainEnv primarySeat legacyWin = Some Win"
    using resolveSeatResult_priority
      [where seat = primarySeat and env = plainEnv and match = legacyWin and i = 1
         and pw = True]
    by (simp add: sample_direct sample_flags sample_matches sample_ids)
  moreover have "resolveSeatResult plainEnv annSeat legacyWin = Some Win"
    using resolveSeatResult_priority
      [where seat = annSeat and env = plainEnv and match = legacyWin and sn = "''Ann''"
         and wn = "''ann ''"]
    by (simp add: sample_direct sample_flags sample_matches sample_ids sample_names)
  moreover have "resolveSeatResult plainEnv bobSeat legacyWin = Some Loss"
    using resolveSeatResult_priority
      [where seat = bobSeat and env = plainEnv and match = legacyWin and sn = "''Bob''"
         and wn = "''ann ''"]
    by (simp add: sample_direct sample_flags sample_matches sample_ids sample_names)
  moreover have "resolveSeatResult plainEnv bobSeat emptyMatch = None"
    using resolveSeatResult_priority
      [where seat = bobSeat and env = plainEnv and match = emptyMatch]
    by (simp add: sample_direct sample_flags sample_matches sample_ids sample_names)
  ultimately show ?thesis
    by simp
qed

section \<open>Rollback never writes a negative counter\<close>

lemma mh_playerRequest_nonneg:
  "c \<in> set (requestCounters (mh_playerRequest env players e)) \<Longrightarrow> 0 \<le> c"
  by (cases e)
    (auto simp: mh_playerRequest_def mh_buildPlayerUpdatePayload_def split: option.splits)

lemma mh_nameRequest_nonneg:
  "c \<in> set (requestCounters (mh_nameRequest env players e)) \<Longrightarrow> 0 \<le> c"
  by (cases e)
    (auto simp: mh_nameRequest_def mh_buildPlayerUpdatePayload_def split: option.splits)

lemma mh_deckRequest_nonneg:
  "c \<in> set (requestCounters (mh_deckRequest env decks e)) \<Longrightarrow> 0 \<le> c"
  by (cases e)
    (auto simp: mh_deckRequest_def mh_buildDeckUpdatePayload_def split: option.splits)

lemma rollbackStats_nonneg:
  "req \<in> set (rollbackStats env match players decks) \<Longrightarrow> c \<in> set (requestCounters req)
   \<Longrightarrow> 0 \<le> c"
  by (auto simp: rollbackStats_def Let_def split: if_splits
      dest: mh_playerRequest_nonneg mh_nameRequest_nonneg mh_deckRequest_nonneg)

lemma mh_player_payload_counters:
  "requestCounters (UpdatePlayer pid (mh_buildPlayerUpdatePayload env player pid d)) =
     [max 0 (coerceNumber env player winsKeys + of_int (wins d)),
      max 0 (coerceNumber env player lossesKeys + of_int (losses d)),
      max 0 (coerceNumber env player tiesKeys + of_int (ties d)),
      max 0 (coerceNumber env player casualWinsKeys + of_int (casualWins d)),
      max 0 (coerceNumber env player casualLossesKeys + of_int (casualLosses d))]"
  by (simp add: mh_buildPlayerUpdatePayload_def)

lemma mh_deck_payload_counters:
  "requestCounters (UpdateDeck dn (mh_buildDeckUpdatePayload env deck dn d)) =
     [max 0 (coerceNumber env deck winsKeys + of_int (wins d)),
      max 0 (coerceNumber env deck lossesKeys + of_int (losses d)),
      max 0 (coerceNumber env deck tiesKeys + of_int (ties d)),
      max 0 (coerceNumber env deck casualWinsKeys + of_int (casualWins d)),
      max 0 (coerceNumber env deck casualLossesKeys + of_int (casualLosses d))]"
  by (simp add: mh_buildDeckUpdatePayload_def)

text \<open>
  C2. On rollback, each of the five counters of a player or deck update payload, built
  from a stored record and an inverted delta \<open>d\<close>, is \<open>max 0 (c + d)\<close> for the stored
  counter \<open>c\<close>; so no update call issued by \<^verbatim>\<open>rollbackStats\<close> writes a negative counter,
  whatever the stored values.
\<close>

theorem rollback_clamps_at_zero:
  "requestCounters (UpdatePlayer pid (mh_buildPlayerUpdatePayload env player pid d)) =
     [max 0 (coerceNumber env player winsKeys + of_int (wins d)),
      max 0 (coerceNumber env player lossesKeys + of_int (losses d)),
      max 0 (coerceNumber env player tiesKeys + of_int (ties d)),
      max 0 (coerceNumber env player casualWinsKeys + of_int (casualWins d)),
      max 0 (coerceNumber env player casualLossesKeys + of_int (casualLosses d))]
   \<and> requestCounters (UpdateDeck dn (mh_buildDeckUpdatePayload env deck dn d)) =
     [max 0 (coerceNumber env deck winsKeys + of_int (wins d)),
      max 0 (coerceNumber env deck lossesKeys + of_int (losses d)),
      max 0 (coerceNumber env deck tiesKeys + of_int (ties d)),
      max 0 (coerceNumber env deck casualWinsKeys + of_int (casualWins d)),
      max 0 (coerceNumber env deck casualLossesKeys + of_int (casualLosses d))]
   \<and> (\<forall>req \<in> set (rollbackStats env match players decks).
         \<forall>c \<in> set (requestCounters req). 0 \<le> c)"
  using rollbackStats_nonneg mh_player_payload_counters mh_deck_payload_counters by blast

lemma scenario_rollback:
  "rollbackStats plainEnv scenarioMatch scenarioPlayers scenarioDecks =
     [UpdatePlayer 1
        \<lparr>pp_playerId = 1, pp_playerName = ''Ann'', pp_wins = 0, pp_losses = 2,
         pp_ties = 0, pp_casualWins = 0, pp_casualLosses = 0\<rparr>,
      UpdatePlayer 2
        \<lparr>pp_playerId = 2, pp_playerName = ''Bob'', pp_wins = 4, pp_losses = 0,
         pp_ties = 0, pp_casualWins = 0, pp_casualLosses = 0\<rparr>,
      UpdateDeck ''Rona''
        \<lparr>dp_deckName = ''Rona'', dp_playerID = 1, dp_wins = 2, dp_losses = 0,
         dp_ties = 0, dp_casualWins = 0, dp_casualLosses = 0\<rparr>,
      UpdateDeck ''Kess''
        \<lparr>dp_deckName = ''Kess'', dp_playerID = 2, dp_wins = 0, dp_losses = 0,
         dp_ties = 0, dp_casualWins = 0, dp_casualLosses = 0\<rparr>]"
  by code_simp

theorem rollback_clamps_at_zero_witness:
  "UpdatePlayer 1
     \<lparr>pp_playerId = 1, pp_playerName = ''Ann'', pp_wins = 0, pp_losses = 2,
      pp_ties = 0, pp_casualWins = 0, pp_casualLosses = 0\<rparr>
     \<in> set (rollbackStats plainEnv scenarioMatch scenarioPlayers scenarioDecks)
   \<and> pp_wins
       \<lparr>pp_playerId = 1, pp_playerName = ''Ann'', pp_wins = 0, pp_losses = 2,
        pp_ties = 0, pp_casualWins = 0, pp_casualLosses = 0\<rparr>
     \<in> set (requestCounters (UpdatePlayer 1
         \<lparr>pp_playerId = 1, pp_playerName = ''Ann'', pp_wins = 0, pp_losses = 2,
          pp_ties = 0, pp_casualWins = 0, pp_casualLosses = 0\<rparr>))
   \<and> 0 \<le> pp_wins
       \<lparr>pp_playerId = 1, pp_playerName = ''Ann'', pp_wins = 0, pp_losses = 2,
        pp_ties = 0, pp_casualWins = 0, pp_casualLosses = 0\<rparr>"
proof -
  let ?p = "\<lparr>pp_playerId = 1, pp_playerName = ''Ann'', pp_wins = 0, pp_losses = 2,
      pp_ties = 0, pp_casualWins = 0, pp_casualLosses = 0\<rparr>"
  have req: "UpdatePlayer 1 ?p
     \<in> set (rollbackStats plainEnv scenarioMatch scenarioPlayers scenarioDecks)"
    by (simp add: scenario_rollback)
  have c: "pp_wins ?p \<in> set (requestCounters (UpdatePlayer 1 ?p))"
    by simp
  from rollback_clamps_at_zero
    [of 1 plainEnv "hd scenarioPlayers" zeroDelta "[]" "hd scenarioDecks"
        scenarioMatch scenarioPlayers scenarioDecks]
  have "\<forall>req \<in> set (rollbackStats plainEnv scenarioMatch scenarioPlayers scenarioDecks).
         \<forall>c \<in> set (requestCounters req). 0 \<le> c"
    by blast
  with req c have "0 \<le> pp_wins ?p"
    by blast
  with req c show ?thesis
    by blast
qed

section \<open>Apply on match creation: accumulated deltas\<close>

lemma map_of_mapSet: "map_of (mapSet k v m) = (map_of m)(k \<mapsto> v)"
  by (induction m) (auto simp: fun_eq_iff)

lemma set_mapSet: "set (mapSet k v m) \<subseteq> insert (k, v) (set m)"
  by (induction m) (auto split: if_splits)

lemma cg_mergeDelta_zero: "cg_mergeDelta zeroDelta d = d"
  by (simp add: cg_mergeDelta_def zeroDelta_def)

lemma deltaAt_accumulate:
  "deltaAt (cg_accumulate k d m) k' =
     (if k' = k then cg_mergeDelta (deltaAt m k) d else deltaAt m k')"
  by (simp add: deltaAt_def cg_accumulate_def map_of_mapSet cg_mergeDelta_zero
      split: option.splits)

lemma applySlot_maps:
  assumes "applySlot env c players decks maps slot = Inr maps1"
  shows "playerDeltaMap maps1 =
           (case slotPlayerId env players slot of
              None \<Rightarrow> playerDeltaMap maps
            | Some pid \<Rightarrow>
                cg_accumulate pid (cg_buildDelta (slotResult slot) c) (playerDeltaMap maps))"
    and "deckDeltaMap maps1 =
           (case slotDeckName env decks slot of
              None \<Rightarrow> deckDeltaMap maps
            | Some dn \<Rightarrow>
                cg_accumulate dn (cg_buildLossDelta (slotResult slot) c) (deckDeltaMap maps))"
  using assms
  by (auto simp: applySlot_def slotPlayerId_def slotDeckName_def Let_def
      split: option.splits if_splits)

lemma applySlots_player_at:
  "applySlots env c players decks maps slots = Inr maps1 \<Longrightarrow>
   deltaAt (playerDeltaMap maps1) pid =
     foldl cg_mergeDelta (deltaAt (playerDeltaMap maps) pid)
       (map (\<lambda>s. cg_buildDelta (slotResult s) c)
          (filter (\<lambda>s. slotPlayerId env players s = Some pid) slots))"
proof (induction slots arbitrary: maps)
  case Nil
  then show ?case by simp
next
  case (Cons slot rest)
  then obtain m where m: "applySlot env c players decks maps slot = Inr m"
    and r: "applySlots env c players decks m rest = Inr maps1"
    by (auto split: sum.splits)
  show ?case
    using Cons.IH [OF r] applySlot_maps(1) [OF m]
    by (auto simp: deltaAt_accumulate split: option.splits)
qed

lemma applySlots_deck_at:
  "applySlots env c players decks maps slots = Inr maps1 \<Longrightarrow>
   deltaAt (deckDeltaMap maps1) dn =
     foldl cg_mergeDelta (deltaAt (deckDeltaMap maps) dn)
       (map (\<lambda>s. cg_buildLossDelta (slotResult s) c)
          (filter (\<lambda>s. slotDeckName env decks s = Some dn) slots))"
proof (induction slots arbitrary: maps)
  case Nil
  then show ?case by simp
next
  case (Cons slot rest)
  then obtain m where m: "applySlot env c players decks maps slot = Inr m"
    and r: "applySlots env c players decks m rest = Inr maps1"
    by (auto split: sum.splits)
  show ?case
    using Cons.IH [OF r] applySlot_maps(2) [OF m]
    by (auto simp: deltaAt_accumulate split: option.splits)
qed

lemma lossDelta_restricts:
  "cg_buildLossDelta r c = (cg_buildDelta r c)\<lparr>wins := 0, ties := 0, casualWins := 0\<rparr>"
  by (cases r; cases c) (simp_all add: cg_buildLossDelta_def cg_buildDelta_def zeroDelta_def)

lemma lossDelta_eq_iff:
  "(cg_buildLossDelta r c = cg_buildDelta r c) = (r = SlotLoss \<or> r = SlotEmpty)"
  by (cases r; cases c) (simp_all add: cg_buildLossDelta_def cg_buildDelta_def zeroDelta_def)

lemma winLoss_applyMaps:
  "applyMaps plainEnv winLossSlots Cedh scenarioPlayers scenarioDecks = Inr winLossMaps"
  by code_simp

lemma winLoss_first_slot:
  "slotPlayerId plainEnv scenarioPlayers (winLossSlots ! 0) = Some 1"
  "slotDeckName plainEnv scenarioDecks (winLossSlots ! 0) = Some ''Rona''"
  "slotResult (winLossSlots ! 0) = SlotWin"
  by code_simp+

lemma winLoss_deltas:
  "deltaAt (playerDeltaMap winLossMaps) 1 =
     \<lparr>wins = 1, losses = 0, ties = 0, casualWins = 0, casualLosses = 0\<rparr>"
  "deltaAt (deckDeltaMap winLossMaps) ''Rona'' =
     \<lparr>wins = 0, losses = 0, ties = 0, casualWins = 0, casualLosses = 0\<rparr>"
  "deltaAt (deckDeltaMap winLossMaps) ''Kess'' =
     \<lparr>wins = 0, losses = 1, ties = 0, casualWins = 0, casualLosses = 0\<rparr>"
  by code_simp+

lemma winLoss_rollback:
  "deltaAt (playerMap (rollbackMaps plainEnv winLossMatch (getMatchSeats winLossMatch))) 1 =
     \<lparr>wins = - 1, losses = 0, ties = 0, casualWins = 0, casualLosses = 0\<rparr>"
  "deltaAt (deckMap (rollbackMaps plainEnv winLossMatch (getMatchSeats winLossMatch))) ''Rona'' =
     \<lparr>wins = - 1, losses = 0, ties = 0, casualWins = 0, casualLosses = 0\<rparr>"
  by code_simp+

lemma winLoss_rona_requests:
  "cg_deckRequest plainEnv scenarioDecks
     (''Rona'', \<lparr>wins = 0, losses = 0, ties = 0, casualWins = 0, casualLosses = 0\<rparr>) =
   UpdateDeck ''Rona''
     \<lparr>dp_deckName = ''Rona'', dp_playerID = 1, dp_wins = 3, dp_losses = 0,
      dp_ties = 0, dp_casualWins = 0, dp_casualLosses = 0\<rparr>"
  "mh_deckRequest plainEnv scenarioDecks
     (''Rona'', \<lparr>wins = - 1, losses = 0, ties = 0, casualWins = 0, casualLosses = 0\<rparr>) =
   UpdateDeck ''Rona''
     \<lparr>dp_deckName = ''Rona'', dp_playerID = 1, dp_wins = 2, dp_losses = 0,
      dp_ties = 0, dp_casualWins = 0, dp_casualLosses = 0\<rparr>"
  by code_simp+

lemma winLoss_inverted:
  "invertDelta \<lparr>wins = 1, losses = 0, ties = 0, casualWins = 0, casualLosses = 0\<rparr> =
     \<lparr>wins = - 1, losses = 0, ties = 0, casualWins = 0, casualLosses = 0\<rparr>"
  "invertDelta \<lparr>wins = 0, losses = 0, ties = 0, casualWins = 0, casualLosses = 0\<rparr> =
     \<lparr>wins = 0, losses = 0, ties = 0, casualWins = 0, casualLosses = 0\<rparr>"
  by (simp_all add: invertDelta_def)

text \<open>
  What apply accumulates, for every game. The delta under a player identity is the merge
  of \<^verbatim>\<open>buildDelta\<close> over the slots of that player; the delta under a deck name is the
  merge of \<^verbatim>\<open>buildLossDelta\<close> over the slots of that deck, which is the slot's delta with
  wins, ties and casualWins set to 0. The two deltas of a slot agree exactly when the slot
  is a loss or has no result.
\<close>

lemma deck_gets_loss_delta:
  "(applyMaps env slots fmt players decks = Inr maps \<longrightarrow>
      deltaAt (playerDeltaMap maps) pid =
        sumDeltas (map (\<lambda>s. cg_buildDelta (slotResult s) (fmt = Casual))
          (filter (\<lambda>s. slotPlayerId env players s = Some pid) slots))
      \<and> deltaAt (deckDeltaMap maps) dn =
        sumDeltas (map (\<lambda>s. cg_buildLossDelta (slotResult s) (fmt = Casual))
          (filter (\<lambda>s. slotDeckName env decks s = Some dn) slots)))
   \<and> cg_buildLossDelta r c = (cg_buildDelta r c)\<lparr>wins := 0, ties := 0, casualWins := 0\<rparr>
   \<and> (cg_buildLossDelta r c = cg_buildDelta r c) = (r = SlotLoss \<or> r = SlotEmpty)"
proof -
  have "deltaAt (playerDeltaMap maps) pid =
        sumDeltas (map (\<lambda>s. cg_buildDelta (slotResult s) (fmt = Casual))
          (filter (\<lambda>s. slotPlayerId env players s = Some pid) slots))"
    and "deltaAt (deckDeltaMap maps) dn =
        sumDeltas (map (\<lambda>s. cg_buildLossDelta (slotResult s) (fmt = Casual))
          (filter (\<lambda>s. slotDeckName env decks s = Some dn) slots))"
    if "applyMaps env slots fmt players decks = Inr maps"
    using that applySlots_player_at [of env "fmt = Casual" players decks _ slots maps pid]
      applySlots_deck_at [of env "fmt = Casual" players decks _ slots maps dn]
    by (simp_all add: applyMaps_def sumDeltas_def deltaAt_def)
  then show ?thesis
    using lossDelta_restricts lossDelta_eq_iff by blast
qed

text \<open>
  C3. On apply, the delta accumulated under a seat's deck name should equal the delta
  accumulated under the seat's player identity. The code does not do that. In the
  four-player competitive game that player 1 wins with deck Rona, apply accumulates the
  zero delta under Rona while player 1 accumulates the win, and the update written for
  Rona keeps its 3 wins. Deleting the saved match treats the two alike: rollback
  accumulates the inverted win under player 1 and under Rona, and the update written for
  Rona takes its wins from 3 to 2, a win that apply never gave it.
\<close>

theorem apply_deck_delta_diverges:
  "applyMaps plainEnv winLossSlots Cedh scenarioPlayers scenarioDecks = Inr winLossMaps
   \<and> slotPlayerId plainEnv scenarioPlayers (winLossSlots ! 0) = Some 1
   \<and> slotDeckName plainEnv scenarioDecks (winLossSlots ! 0) = Some ''Rona''
   \<and> slotResult (winLossSlots ! 0) = SlotWin
   \<and> deltaAt (playerDeltaMap winLossMaps) 1 =
       \<lparr>wins = 1, losses = 0, ties = 0, casualWins = 0, casualLosses = 0\<rparr>
   \<and> deltaAt (deckDeltaMap winLossMaps) ''Rona'' =
       \<lparr>wins = 0, losses = 0, ties = 0, casualWins = 0, casualLosses = 0\<rparr>
   \<and> deltaAt (deckDeltaMap winLossMaps) ''Rona'' \<noteq> deltaAt (playerDeltaMap winLossMaps) 1
   \<and> cg_deckRequest plainEnv scenarioDecks
         (''Rona'', deltaAt (deckDeltaMap winLossMaps) ''Rona'') =
       UpdateDeck ''Rona''
         \<lparr>dp_deckName = ''Rona'', dp_playerID = 1, dp_wins = 3, dp_losses = 0,
          dp_ties = 0, dp_casualWins = 0, dp_casualLosses = 0\<rparr>
   \<and> deltaAt (playerMap (rollbackMaps plainEnv winLossMatch (getMatchSeats winLossMatch))) 1 =
       invertDelta (deltaAt (playerDeltaMap winLossMaps) 1)
   \<and> deltaAt (deckMap (rollbackMaps plainEnv winLossMatch (getMatchSeats winLossMatch)))
         ''Rona'' =
       \<lparr>wins = - 1, losses = 0, ties = 0, casualWins = 0, casualLosses = 0\<rparr>
   \<and> deltaAt (deckMap (rollbackMaps plainEnv winLossMatch (getMatchSeats winLossMatch)))
         ''Rona'' \<noteq>
       invertDelta (deltaAt (deckDeltaMap winLossMaps) ''Rona'')
   \<and> mh_deckRequest plainEnv scenarioDecks
         (''Rona'',
          deltaAt (deckMap (rollbackMaps plainEnv winLossMatch (getMatchSeats winLossMatch)))
            ''Rona'') =
       UpdateDeck ''Rona''
         \<lparr>dp_deckName = ''Rona'', dp_playerID = 1, dp_wins = 2, dp_losses = 0,
          dp_ties = 0, dp_casualWins = 0, dp_casualLosses = 0\<rparr>"
  by (simp add: winLoss_applyMaps winLoss_first_slot winLoss_deltas winLoss_rollback
      winLoss_rona_requests winLoss_inverted)

section \<open>Apply on match creation: payloads\<close>

lemma nonneg_buildDelta: "nonnegDelta (cg_buildDelta r c)"
  by (cases r; cases c) (simp_all add: nonnegDelta_def cg_buildDelta_def zeroDelta_def)

lemma nonneg_buildLossDelta: "nonnegDelta (cg_buildLossDelta r c)"
  by (cases r; cases c) (simp_all add: nonnegDelta_def cg_buildLossDelta_def zeroDelta_def)

lemma nonneg_merge: "nonnegDelta a \<Longrightarrow> nonnegDelta b \<Longrightarrow> nonnegDelta (cg_mergeDelta a b)"
  by (simp add: nonnegDelta_def cg_mergeDelta_def)

lemma nonneg_accumulate:
  assumes "\<forall>e \<in> set m. nonnegDelta (snd e)" "nonnegDelta d"
  shows "\<forall>e \<in> set (cg_accumulate k d m). nonnegDelta (snd e)"
proof
  fix e assume "e \<in> set (cg_accumulate k d m)"
  then have "e \<in> set m \<or>
      e = (k, case map_of m k of Some existing \<Rightarrow> cg_mergeDelta existing d | None \<Rightarrow> d)"
    using set_mapSet [of k _ m] by (auto simp: cg_accumulate_def)
  moreover have "nonnegDelta (case map_of m k of
      Some existing \<Rightarrow> cg_mergeDelta existing d | None \<Rightarrow> d)"
  proof (cases "map_of m k")
    case None
    with assms(2) show ?thesis by simp
  next
    case (Some existing)
    then have "(k, existing) \<in> set m" by (rule map_of_SomeD)
    with assms(1) have "nonnegDelta existing" by fastforce
    with Some assms(2) show ?thesis by (simp add: nonneg_merge)
  qed
  ultimately show "nonnegDelta (snd e)"
    using assms(1) by auto
qed

lemma applySlot_nonneg:
  assumes "applySlot env c players decks maps slot = Inr maps1"
    and "\<forall>e \<in> set (playerDeltaMap maps). nonnegDelta (snd e)"
    and "\<forall>e \<in> set (deckDeltaMap maps). nonnegDelta (snd e)"
  shows "(\<forall>e \<in> set (playerDeltaMap maps1). nonnegDelta (snd e))
       \<and> (\<forall>e \<in> set (deckDeltaMap maps1). nonnegDelta (snd e))"
proof -
  have "\<forall>e \<in> set (playerDeltaMap maps1). nonnegDelta (snd e)"
    using applySlot_maps(1) [OF assms(1)] assms(2)
      nonneg_accumulate [OF assms(2) nonneg_buildDelta]
    by (cases "slotPlayerId env players slot") simp_all
  moreover have "\<forall>e \<in> set (deckDeltaMap maps1). nonnegDelta (snd e)"
    using applySlot_maps(2) [OF assms(1)] assms(3)
      nonneg_accumulate [OF assms(3) nonneg_buildLossDelta]
    by (cases "slotDeckName env decks slot") simp_all
  ultimately show ?thesis by simp
qed

lemma applySlots_nonneg:
  "applySlots env c players decks maps slots = Inr maps1 \<Longrightarrow>
   \<forall>e \<in> set (playerDeltaMap maps). nonnegDelta (snd e) \<Longrightarrow>
   \<forall>e \<in> set (deckDeltaMap maps). nonnegDelta (snd e) \<Longrightarrow>
   (\<forall>e \<in> set (playerDeltaMap maps1). nonnegDelta (snd e))
     \<and> (\<forall>e \<in> set (deckDeltaMap maps1). nonnegDelta (snd e))"
proof (induction slots arbitrary: maps)
  case Nil
  then show ?case by simp
next
  case (Cons slot rest)
  from Cons.prems(1) obtain m where m: "applySlot env c players decks maps slot = Inr m"
    and r: "applySlots env c players decks m rest = Inr maps1"
    by (auto split: sum.splits)
  from applySlot_nonneg [OF m Cons.prems(2) Cons.prems(3)] Cons.IH [OF r]
  show ?case by simp
qed

lemma applyMaps_nonneg:
  assumes "applyMaps env slots fmt players decks = Inr maps"
  shows "\<forall>e \<in> set (playerDeltaMap maps). nonnegDelta (snd e)"
    and "\<forall>e \<in> set (deckDeltaMap maps). nonnegDelta (snd e)"
  using applySlots_nonneg [of env "fmt = Casual" players decks
      "\<lparr>playerDeltaMap = [], deckDeltaMap = []\<rparr>" slots maps] assms
  by (simp_all add: applyMaps_def)

lemma map_fst_mapSet:
  "map fst (mapSet k v m) = (if k \<in> fst ` set m then map fst m else map fst m @ [k])"
  by (induction m) (fastforce simp: image_iff)+

lemma distinct_accumulate:
  "distinct (map fst m) \<Longrightarrow> distinct (map fst (cg_accumulate k d m))"
  by (simp add: cg_accumulate_def map_fst_mapSet)

lemma applySlot_distinct:
  assumes "applySlot env c players decks maps slot = Inr maps1"
    and "distinct (map fst (playerDeltaMap maps))"
    and "distinct (map fst (deckDeltaMap maps))"
  shows "distinct (map fst (playerDeltaMap maps1)) \<and> distinct (map fst (deckDeltaMap maps1))"
  using applySlot_maps [OF assms(1)] assms(2,3)
  by (auto simp: distinct_accumulate split: option.splits)

lemma applySlots_distinct:
  "applySlots env c players decks maps slots = Inr maps1 \<Longrightarrow>
   distinct (map fst (playerDeltaMap maps)) \<Longrightarrow> distinct (map fst (deckDeltaMap maps)) \<Longrightarrow>
   distinct (map fst (playerDeltaMap maps1)) \<and> distinct (map fst (deckDeltaMap maps1))"
proof (induction slots arbitrary: maps)
  case Nil
  then show ?case by simp
next
  case (Cons slot rest)
  from Cons.prems(1) obtain m where m: "applySlot env c players decks maps slot = Inr m"
    and r: "applySlots env c players decks m rest = Inr maps1"
    by (auto split: sum.splits)
  from applySlot_distinct [OF m Cons.prems(2) Cons.prems(3)] Cons.IH [OF r]
  show ?case by simp
qed

lemma applyMaps_distinct:
  assumes "applyMaps env slots fmt players decks = Inr maps"
  shows "distinct (map fst (playerDeltaMap maps))"
    and "distinct (map fst (deckDeltaMap maps))"
  using applySlots_distinct [of env "fmt = Casual" players decks
      "\<lparr>playerDeltaMap = [], deckDeltaMap = []\<rparr>" slots maps] assms
  by (simp_all add: applyMaps_def)

lemma deltaAt_entry: "distinct (map fst m) \<Longrightarrow> (k, d) \<in> set m \<Longrightarrow> deltaAt m k = d"
  by (simp add: deltaAt_def)

lemma find_Some_mem: "find P xs = Some x \<Longrightarrow> x \<in> set xs \<and> P x"
  by (induction xs) (auto split: if_splits)

lemma cg_playerRequest_shape:
  "cg_playerRequest env fp (pid, d) = NoRequest
   \<or> (\<exists>player. find (\<lambda>item. cg_getPlayerId env (Some item) = Some pid) fp = Some player
        \<and> cg_playerRequest env fp (pid, d)
            = UpdatePlayer pid (cg_buildPlayerUpdatePayload env player pid d))"
  by (simp add: cg_playerRequest_def split: option.splits)

lemma cg_deckRequest_shape:
  "cg_deckRequest env fd (dn, d) = NoRequest
   \<or> (\<exists>deck. deck \<in> set fd
        \<and> cg_deckRequest env fd (dn, d)
            = UpdateDeck dn (cg_buildDeckUpdatePayload env deck dn d))"
  by (auto simp: cg_deckRequest_def split: option.splits dest: find_Some_mem)

lemma updateStats_requests:
  assumes "updateStatsForMatch env slots fmt players decks fp fd = Inr reqs"
    and "req \<in> set reqs"
  shows "\<exists>maps. applyMaps env slots fmt players decks = Inr maps
     \<and> (req = NoRequest
        \<or> (\<exists>p item.
              req = UpdatePlayer p
                (cg_buildPlayerUpdatePayload env item p (deltaAt (playerDeltaMap maps) p))
              \<and> find (\<lambda>i. cg_getPlayerId env (Some i) = Some p) fp = Some item
              \<and> nonnegDelta (deltaAt (playerDeltaMap maps) p))
        \<or> (\<exists>n item.
              req = UpdateDeck n
                (cg_buildDeckUpdatePayload env item n (deltaAt (deckDeltaMap maps) n))
              \<and> item \<in> set fd
              \<and> nonnegDelta (deltaAt (deckDeltaMap maps) n)))"
proof -
  from assms(1) obtain maps where maps: "applyMaps env slots fmt players decks = Inr maps"
    and reqs: "reqs = [] \<or> reqs = map (cg_playerRequest env fp) (playerDeltaMap maps)
                     @ map (cg_deckRequest env fd) (deckDeltaMap maps)"
    by (auto simp: updateStatsForMatch_def split: sum.splits if_splits)
  from reqs assms(2) consider
      (player) e where "e \<in> set (playerDeltaMap maps)" "req = cg_playerRequest env fp e"
    | (deck) e where "e \<in> set (deckDeltaMap maps)" "req = cg_deckRequest env fd e"
    by auto
  then have "req = NoRequest
        \<or> (\<exists>p item.
              req = UpdatePlayer p
                (cg_buildPlayerUpdatePayload env item p (deltaAt (playerDeltaMap maps) p))
              \<and> find (\<lambda>i. cg_getPlayerId env (Some i) = Some p) fp = Some item
              \<and> nonnegDelta (deltaAt (playerDeltaMap maps) p))
        \<or> (\<exists>n item.
              req = UpdateDeck n
                (cg_buildDeckUpdatePayload env item n (deltaAt (deckDeltaMap maps) n))
              \<and> item \<in> set fd
              \<and> nonnegDelta (deltaAt (deckDeltaMap maps) n))"
  proof cases
    case player
    obtain pid d where e: "e = (pid, d)" by (cases e)
    with player applyMaps_nonneg(1) [OF maps] have "nonnegDelta d" by fastforce
    moreover from e player deltaAt_entry [OF applyMaps_distinct(1) [OF maps]]
    have "deltaAt (playerDeltaMap maps) pid = d" by simp
    ultimately show ?thesis
      using cg_playerRequest_shape [of env fp pid d] player(2) e by auto
  next
    case deck
    obtain dn d where e: "e = (dn, d)" by (cases e)
    with deck applyMaps_nonneg(2) [OF maps] have "nonnegDelta d" by fastforce
    moreover from e deck deltaAt_entry [OF applyMaps_distinct(2) [OF maps]]
    have "deltaAt (deckDeltaMap maps) dn = d" by simp
    ultimately show ?thesis
      using cg_deckRequest_shape [of env fd dn d] deck(2) e by auto
  qed
  with maps show ?thesis by blast
qed

lemma cg_player_payload_counters:
  "requestCounters (UpdatePlayer pid (cg_buildPlayerUpdatePayload env player pid d)) =
     [coerceNumber env player winsKeys + of_int (wins d),
      coerceNumber env player lossesKeys + of_int (losses d),
      coerceNumber env player tiesKeys + of_int (ties d),
      coerceNumber env player casualWinsKeys + of_int (casualWins d),
      coerceNumber env player casualLossesKeys + of_int (casualLosses d)]"
  by (simp add: cg_buildPlayerUpdatePayload_def)

lemma cg_deck_payload_counters:
  "requestCounters (UpdateDeck dn (cg_buildDeckUpdatePayload env deck dn d)) =
     [coerceNumber env deck winsKeys + of_int (wins d),
      coerceNumber env deck lossesKeys + of_int (losses d),
      coerceNumber env deck tiesKeys + of_int (ties d),
      coerceNumber env deck casualWinsKeys + of_int (casualWins d),
      coerceNumber env deck casualLossesKeys + of_int (casualLosses d)]"
  by (simp add: cg_buildDeckUpdatePayload_def)

lemma cg_player_payload_clamped:
  "nonnegDelta d \<and> (\<forall>c \<in> set (storedCounters env player). 0 \<le> c) \<longrightarrow>
   requestCounters (UpdatePlayer pid (cg_buildPlayerUpdatePayload env player pid d)) =
     [max 0 (coerceNumber env player winsKeys + of_int (wins d)),
      max 0 (coerceNumber env player lossesKeys + of_int (losses d)),
      max 0 (coerceNumber env player tiesKeys + of_int (ties d)),
      max 0 (coerceNumber env player casualWinsKeys + of_int (casualWins d)),
      max 0 (coerceNumber env player casualLossesKeys + of_int (casualLosses d))]"
  by (simp add: cg_buildPlayerUpdatePayload_def nonnegDelta_def storedCounters_def max_def)

lemma cg_deck_payload_clamped:
  "nonnegDelta d \<and> (\<forall>c \<in> set (storedCounters env deck). 0 \<le> c) \<longrightarrow>
   requestCounters (UpdateDeck dn (cg_buildDeckUpdatePayload env deck dn d)) =
     [max 0 (coerceNumber env deck winsKeys + of_int (wins d)),
      max 0 (coerceNumber env deck lossesKeys + of_int (losses d)),
      max 0 (coerceNumber env deck tiesKeys + of_int (ties d)),
      max 0 (coerceNumber env deck casualWinsKeys + of_int (casualWins d)),
      max 0 (coerceNumber env deck casualLossesKeys + of_int (casualLosses d))]"
  by (simp add: cg_buildDeckUpdatePayload_def nonnegDelta_def storedCounters_def max_def)

lemma negative_requests:
  "updateStatsForMatch plainEnv winLossSlots Cedh negativePlayers scenarioDecks
     negativePlayers scenarioDecks = Inr (winLossRequests (- 1))"
  by code_simp

lemma negative_maps:
  "applyMaps plainEnv winLossSlots Cedh negativePlayers scenarioDecks = Inr winLossMaps"
  by code_simp

lemma negative_stored: "coerceNumber plainEnv (negativePlayers ! 0) winsKeys = - 2"
  by code_simp

text \<open>
  C1, as stated, fails: for a stored win count of \<open>-2\<close> and an accumulated win delta of 1
  the apply path writes \<open>-1\<close>, not \<open>max 0 (-2 + 1) = 0\<close>.
\<close>

theorem apply_clamp_counterexample:
  "updateStatsForMatch plainEnv winLossSlots Cedh negativePlayers scenarioDecks
     negativePlayers scenarioDecks = Inr (winLossRequests (- 1))
   \<and> winLossRequests (- 1) ! 0 =
       UpdatePlayer 1
         \<lparr>pp_playerId = 1, pp_playerName = ''Ann'', pp_wins = - 1, pp_losses = 2,
          pp_ties = 0, pp_casualWins = 0, pp_casualLosses = 0\<rparr>
   \<and> coerceNumber plainEnv (negativePlayers ! 0) winsKeys = - 2
   \<and> applyMaps plainEnv winLossSlots Cedh negativePlayers scenarioDecks = Inr winLossMaps
   \<and> wins (deltaAt (playerDeltaMap winLossMaps) 1) = 1
   \<and> (- 1 :: rat) \<noteq> max 0 (- 2 + of_int 1)"
  by (simp add: negative_requests negative_maps negative_stored winLossRequests_def
      winLoss_deltas)

text \<open>
  C1, amended. On apply, each of the five counters of a player or deck update payload is
  the stored counter plus the accumulated delta, with no clamp. Every update call issued
  by \<^verbatim>\<open>updateStatsForMatch\<close> carries such a payload, built from the record found in the
  fetched snapshot and the delta accumulated under that identity, which has no negative
  component; so the counter written equals \<open>max 0 (c + d)\<close> whenever the stored counters
  are not negative.
\<close>

theorem apply_adds_without_clamp:
  "requestCounters (UpdatePlayer pid (cg_buildPlayerUpdatePayload env player pid d)) =
     [coerceNumber env player winsKeys + of_int (wins d),
      coerceNumber env player lossesKeys + of_int (losses d),
      coerceNumber env player tiesKeys + of_int (ties d),
      coerceNumber env player casualWinsKeys + of_int (casualWins d),
      coerceNumber env player casualLossesKeys + of_int (casualLosses d)]
   \<and> requestCounters (UpdateDeck dn (cg_buildDeckUpdatePayload env deck dn d)) =
     [coerceNumber env deck winsKeys + of_int (wins d),
      coerceNumber env deck lossesKeys + of_int (losses d),
      coerceNumber env deck tiesKeys + of_int (ties d),
      coerceNumber env deck casualWinsKeys + of_int (casualWins d),
      coerceNumber env deck casualLossesKeys + of_int (casualLosses d)]
   \<and> (updateStatsForMatch env slots fmt players decks fetchedPlayers fetchedDecks = Inr reqs
        \<and> req \<in> set reqs
      \<longrightarrow> (\<exists>maps. applyMaps env slots fmt players decks = Inr maps
            \<and> (req = NoRequest
               \<or> (\<exists>p item.
                     req = UpdatePlayer p
                       (cg_buildPlayerUpdatePayload env item p
                          (deltaAt (playerDeltaMap maps) p))
                     \<and> find (\<lambda>i. cg_getPlayerId env (Some i) = Some p) fetchedPlayers
                         = Some item
                     \<and> nonnegDelta (deltaAt (playerDeltaMap maps) p))
               \<or> (\<exists>n item.
                     req = UpdateDeck n
                       (cg_buildDeckUpdatePayload env item n (deltaAt (deckDeltaMap maps) n))
                     \<and> item \<in> set fetchedDecks
                     \<and> nonnegDelta (deltaAt (deckDeltaMap maps) n)))))
   \<and> (nonnegDelta d \<and> (\<forall>c \<in> set (storedCounters env player). 0 \<le> c) \<longrightarrow>
        requestCounters (UpdatePlayer pid (cg_buildPlayerUpdatePayload env player pid d)) =
          [max 0 (coerceNumber env player winsKeys + of_int (wins d)),
           max 0 (coerceNumber env player lossesKeys + of_int (losses d)),
           max 0 (coerceNumber env player tiesKeys + of_int (ties d)),
           max 0 (coerceNumber env player casualWinsKeys + of_int (casualWins d)),
           max 0 (coerceNumber env player casualLossesKeys + of_int (casualLosses d))])
   \<and> (nonnegDelta d \<and> (\<forall>c \<in> set (storedCounters env deck). 0 \<le> c) \<longrightarrow>
        requestCounters (UpdateDeck dn (cg_buildDeckUpdatePayload env deck dn d)) =
          [max 0 (coerceNumber env deck winsKeys + of_int (wins d)),
           max 0 (coerceNumber env deck lossesKeys + of_int (losses d)),
           max 0 (coerceNumber env deck tiesKeys + of_int (ties d)),
           max 0 (coerceNumber env deck casualWinsKeys + of_int (casualWins d)),
           max 0 (coerceNumber env deck casualLossesKeys + of_int (casualLosses d))])"
proof -
  have orch:
    "updateStatsForMatch env slots fmt players decks fetchedPlayers fetchedDecks = Inr reqs
        \<and> req \<in> set reqs
      \<longrightarrow> (\<exists>maps. applyMaps env slots fmt players decks = Inr maps
            \<and> (req = NoRequest
               \<or> (\<exists>p item.
                     req = UpdatePlayer p
                       (cg_buildPlayerUpdatePayload env item p
                          (deltaAt (playerDeltaMap maps) p))
                     \<and> find (\<lambda>i. cg_getPlayerId env (Some i) = Some p) fetchedPlayers
                         = Some item
                     \<and> nonnegDelta (deltaAt (playerDeltaMap maps) p))
               \<or> (\<exists>n item.
                     req = UpdateDeck n
                       (cg_buildDeckUpdatePayload env item n (deltaAt (deckDeltaMap maps) n))
                     \<and> item \<in> set fetchedDecks
                     \<and> nonnegDelta (deltaAt (deckDeltaMap maps) n))))"
    using updateStats_requests [of env slots fmt players decks fetchedPlayers
        fetchedDecks reqs req]
    by blast
  show ?thesis
    by (intro conjI orch cg_player_payload_counters cg_deck_payload_counters
        cg_player_payload_clamped cg_deck_payload_clamped)
qed

lemma scenario_requests:
  "updateStatsForMatch plainEnv winLossSlots Cedh scenarioPlayers scenarioDecks
     scenarioPlayers scenarioDecks = Inr (winLossRequests 1)"
  by code_simp

lemma scenario_first_payload:
  "cg_buildPlayerUpdatePayload plainEnv (scenarioPlayers ! 0) 1
     \<lparr>wins = 1, losses = 0, ties = 0, casualWins = 0, casualLosses = 0\<rparr>
   = \<lparr>pp_playerId = 1, pp_playerName = ''Ann'', pp_wins = 1, pp_losses = 2,
      pp_ties = 0, pp_casualWins = 0, pp_casualLosses = 0\<rparr>"
  by code_simp

lemma scenario_first_stored: "storedCounters plainEnv (scenarioPlayers ! 0) = [0, 2, 0, 0, 0]"
  by code_simp

lemma scenario_maps:
  "applyMaps plainEnv winLossSlots Cedh scenarioPlayers scenarioDecks = Inr winLossMaps"
  by code_simp

lemma scenario_first_id: "cg_getPlayerId plainEnv (Some (scenarioPlayers ! 0)) = Some 1"
  by code_simp

lemma scenario_first_found:
  "find (\<lambda>i. cg_getPlayerId plainEnv (Some i) = Some 1) scenarioPlayers
     = Some (scenarioPlayers ! 0)"
proof -
  have "scenarioPlayers = scenarioPlayers ! 0 # tl scenarioPlayers"
    by (simp add: scenarioPlayers_def)
  then have "find (\<lambda>i. cg_getPlayerId plainEnv (Some i) = Some 1) scenarioPlayers
      = find (\<lambda>i. cg_getPlayerId plainEnv (Some i) = Some 1)
          (scenarioPlayers ! 0 # tl scenarioPlayers)"
    by simp
  then show ?thesis
    by (simp add: scenario_first_id)
qed

lemma scenario_second_deck:
  "cg_buildDeckUpdatePayload plainEnv (scenarioDecks ! 1) ''Kess''
     \<lparr>wins = 0, losses = 1, ties = 0, casualWins = 0, casualLosses = 0\<rparr>
   = \<lparr>dp_deckName = ''Kess'', dp_playerID = 2, dp_wins = 0, dp_losses = 1,
      dp_ties = 0, dp_casualWins = 0, dp_casualLosses = 0\<rparr>"
  "storedCounters plainEnv (scenarioDecks ! 1) = [0, 0, 0, 0, 0]"
  by code_simp+

theorem apply_adds_without_clamp_witness:
  "updateStatsForMatch plainEnv winLossSlots Cedh scenarioPlayers scenarioDecks
     scenarioPlayers scenarioDecks = Inr (winLossRequests 1)
   \<and> winLossRequests 1 ! 0 \<in> set (winLossRequests 1)
   \<and> applyMaps plainEnv winLossSlots Cedh scenarioPlayers scenarioDecks = Inr winLossMaps
   \<and> find (\<lambda>i. cg_getPlayerId plainEnv (Some i) = Some 1) scenarioPlayers
       = Some (scenarioPlayers ! 0)
   \<and> winLossRequests 1 ! 0 =
       UpdatePlayer 1
         (cg_buildPlayerUpdatePayload plainEnv (scenarioPlayers ! 0) 1
            (deltaAt (playerDeltaMap winLossMaps) 1))
   \<and> nonnegDelta (deltaAt (playerDeltaMap winLossMaps) 1)
   \<and> storedCounters plainEnv (scenarioPlayers ! 0) = [0, 2, 0, 0, 0]
   \<and> requestCounters (winLossRequests 1 ! 0) = [0 + 1, 2 + 0, 0 + 0, 0 + 0, 0 + 0]
   \<and> requestCounters (winLossRequests 1 ! 0)
      = [max 0 (0 + 1), max 0 (2 + 0), max 0 (0 + 0), max 0 (0 + 0), max 0 (0 + 0)]
   \<and> nonnegDelta (deltaAt (deckDeltaMap winLossMaps) ''Kess'')
   \<and> storedCounters plainEnv (scenarioDecks ! 1) = [0, 0, 0, 0, 0]
   \<and> requestCounters (winLossRequests 1 ! 5)
      = [max 0 (0 + 0), max 0 (0 + 1), max 0 (0 + 0), max 0 (0 + 0), max 0 (0 + 0)]"
proof -
  have first: "winLossRequests 1 ! 0 =
       UpdatePlayer 1
         (cg_buildPlayerUpdatePayload plainEnv (scenarioPlayers ! 0) 1
            (deltaAt (playerDeltaMap winLossMaps) 1))"
    by (simp add: winLossRequests_def winLoss_deltas scenario_first_payload)
  have sixth: "winLossRequests 1 ! 5 =
       UpdateDeck ''Kess''
         (cg_buildDeckUpdatePayload plainEnv (scenarioDecks ! 1) ''Kess''
            (deltaAt (deckDeltaMap winLossMaps) ''Kess''))"
    by (simp del: One_nat_def add: winLossRequests_def winLoss_deltas scenario_second_deck)
  have mem: "winLossRequests 1 ! 0 \<in> set (winLossRequests 1)"
    by (simp add: winLossRequests_def)
  have nonneg: "nonnegDelta (deltaAt (playerDeltaMap winLossMaps) 1)"
    "nonnegDelta (deltaAt (deckDeltaMap winLossMaps) ''Kess'')"
    by (simp_all add: winLoss_deltas nonnegDelta_def)
  have stored: "\<forall>c \<in> set (storedCounters plainEnv (scenarioPlayers ! 0)). 0 \<le> c"
    "\<forall>c \<in> set (storedCounters plainEnv (scenarioDecks ! 1)). 0 \<le> c"
    by (simp_all del: One_nat_def add: scenario_first_stored scenario_second_deck)
  from apply_adds_without_clamp
    [of 1 plainEnv "scenarioPlayers ! 0" "deltaAt (playerDeltaMap winLossMaps) 1"
        "''Rona''" "scenarioDecks ! 0" winLossSlots Cedh scenarioPlayers scenarioDecks
        scenarioPlayers scenarioDecks "winLossRequests 1" "winLossRequests 1 ! 0"]
  have sums: "requestCounters (UpdatePlayer 1
         (cg_buildPlayerUpdatePayload plainEnv (scenarioPlayers ! 0) 1
            (deltaAt (playerDeltaMap winLossMaps) 1)))
      = [0 + 1, 2 + 0, 0 + 0, 0 + 0, 0 + 0]"
    and clamped: "requestCounters (UpdatePlayer 1
         (cg_buildPlayerUpdatePayload plainEnv (scenarioPlayers ! 0) 1
            (deltaAt (playerDeltaMap winLossMaps) 1)))
      = [max 0 (0 + 1), max 0 (2 + 0), max 0 (0 + 0), max 0 (0 + 0), max 0 (0 + 0)]"
    using nonneg stored
    by (simp_all add: winLoss_deltas scenario_first_payload)
  from apply_adds_without_clamp
    [of 2 plainEnv "scenarioPlayers ! 1" "deltaAt (deckDeltaMap winLossMaps) ''Kess''"
        "''Kess''" "scenarioDecks ! 1" winLossSlots Cedh scenarioPlayers scenarioDecks
        scenarioPlayers scenarioDecks "winLossRequests 1" "winLossRequests 1 ! 5"]
  have deck_clamped: "requestCounters (UpdateDeck ''Kess''
         (cg_buildDeckUpdatePayload plainEnv (scenarioDecks ! 1) ''Kess''
            (deltaAt (deckDeltaMap winLossMaps) ''Kess'')))
      = [max 0 (0 + 0), max 0 (0 + 1), max 0 (0 + 0), max 0 (0 + 0), max 0 (0 + 0)]"
    using nonneg stored
    by (simp del: One_nat_def add: winLoss_deltas scenario_second_deck)
  from sums clamped deck_clamped first sixth mem nonneg show ?thesis
    by (simp del: One_nat_def add: scenario_requests scenario_maps scenario_first_found
        scenario_first_stored scenario_second_deck)
qed

section \<open>Favorite decks\<close>

lemma countMatch_played:
  "countsByName (countMatch c (playedMatch p d)) = bumpName (Some p) (Some d) (countsByName c)"
  by (simp add: countMatch_def playedMatch_def emptyMatch_def Let_def bumpId_def
      bumpName_def numTruthy_def)

lemma pl_countMatch_played:
  "pl_countMatch env c (playedMatch p d) = pl_bumpOpponent (Some p) (Some d) c"
  by (simp add: pl_countMatch_def playedMatch_def emptyMatch_def Let_def pl_bumpOpponent_def)

lemma create_game_favorite:
  "p \<noteq> [] \<and> toLowerCase (trim p) \<noteq> [] \<and> d1 \<noteq> [] \<and> normalizeDeckKey d1 \<noteq> [] \<longrightarrow>
   map_of (byName (buildFavoriteDeckMaps
       [playedMatch p d1, playedMatch p d1, playedMatch p d2]))
     (toLowerCase (trim p)) = Some (normalizeDeckKey d1)"
  by (auto simp add: buildFavoriteDeckMaps_def countMatch_played bumpName_def bumpCount_def
      favoritesOf_def bestDeckOf_def Let_def)

lemma players_page_favorite:
  "p \<noteq> [] \<and> d1 \<noteq> [] \<and> trim d1 \<noteq> [] \<longrightarrow>
   map_of (buildFavoriteDeckMap env [playedMatch p d1, playedMatch p d1, playedMatch p d2])
     (''name:'' @ p) = Some (trim d1)"
  by (auto simp add: buildFavoriteDeckMap_def pl_countMatch_played pl_bumpOpponent_def
      pl_bump_def bumpCount_def favoritesOf_def bestDeckOf_def Let_def)

lemma playerA_keys:
  "toLowerCase (trim ''A'') = ''a''"
  "normalizeDeckKey ''Mono Red'' = ''monored''"
  "trim ''Mono Red'' = ''Mono Red''"
  by code_simp+

lemma playerA_byName:
  "map_of (byName (buildFavoriteDeckMaps playerAMatches)) ''a'' = Some ''monored''"
  by code_simp

text \<open>
  C4, as stated, fails: for player A with Mono Red twice and Izzet once, the by-name map
  of \<^verbatim>\<open>buildFavoriteDeckMaps\<close> holds \<open>monored\<close> at key \<open>a\<close>, not the name as recorded.
\<close>

theorem favorite_deck_counterexample:
  "map_of (byName (buildFavoriteDeckMaps playerAMatches)) ''a'' = Some ''monored''
   \<and> map_of (byName (buildFavoriteDeckMaps playerAMatches)) ''a'' \<noteq> Some ''Mono Red''"
  by (simp add: playerA_byName)

text \<open>
  C4, amended. For a player who played one deck twice and another once, the by-name map
  of \<^verbatim>\<open>buildFavoriteDeckMaps\<close> holds, under the trimmed lower-cased player name, the
  normalized key of the first deck (trimmed, lower-cased, every character outside
  \<open>a-z0-9\<close> removed): \<open>monored\<close> at key \<open>a\<close> for player A with Mono Red. The deck name as
  recorded is what \<^verbatim>\<open>buildFavoriteDeckMap\<close> of the players page keeps, under
  \<open>name:\<close> followed by the player name.
\<close>

theorem favorite_deck_is_normalized:
  "(p \<noteq> [] \<and> toLowerCase (trim p) \<noteq> [] \<and> d1 \<noteq> [] \<and> normalizeDeckKey d1 \<noteq> [] \<longrightarrow>
      map_of (byName (buildFavoriteDeckMaps
          [playedMatch p d1, playedMatch p d1, playedMatch p d2]))
        (toLowerCase (trim p)) = Some (normalizeDeckKey d1))
   \<and> (p \<noteq> [] \<and> d1 \<noteq> [] \<and> trim d1 \<noteq> [] \<longrightarrow>
      map_of (buildFavoriteDeckMap env [playedMatch p d1, playedMatch p d1, playedMatch p d2])
        (''name:'' @ p) = Some (trim d1))
   \<and> toLowerCase (trim ''A'') = ''a''
   \<and> normalizeDeckKey ''Mono Red'' = ''monored''
   \<and> trim ''Mono Red'' = ''Mono Red''"
  by (intro conjI create_game_favorite players_page_favorite playerA_keys)

theorem favorite_deck_is_normalized_witness:
  "map_of (byName (buildFavoriteDeckMaps playerAMatches)) ''a'' = Some ''monored''
   \<and> map_of (buildFavoriteDeckMap plainEnv playerAMatches) ''name:A'' = Some ''Mono Red''"
proof -
  have ne: "''A'' \<noteq> []" "''a'' \<noteq> []" "''Mono Red'' \<noteq> []" "''monored'' \<noteq> []"
    by simp_all
  from favorite_deck_is_normalized [of "''A''" "''Mono Red''" "''Izzet''" plainEnv] ne
  show ?thesis
    by (simp add: playerAMatches_def playerA_keys)
qed

section \<open>Win percentage\<close>



lemma getWinPercentageValue_direct:
  "coalesce r pctKeys = Some (JNum d) \<Longrightarrow> getWinPercentageValue env r = Fin d"
  by (simp add: getWinPercentageValue_def)








text \<open>
  The function run on the sample records. The last two lie outside the statement above:
  a record that carries a finite percentage returns it, and a negative counter that
  cancels the other makes the total 0, which the guard answers with 0.
\<close>

lemma pct_sample_values:
  "getWinPercentageValue exactArith threeOneRecord = Fin 75"
  "getWinPercentageValue exactArith newPlayerRecord = Fin 0"
  "getWinPercentageValue exactArith infinityRecord = NaN"
  "getWinPercentageValue exactArith directRecord = Fin (125 / 2)"
  "getWinPercentageValue exactArith zeroSumRecord = Fin 0"
  by code_simp+

text \<open>
  The quotient is the language's: a win counter stored as the string \<^verbatim>\<open>'Infinity'\<close>
  gives \<open>Infinity / Infinity * 100\<close>, which is \<open>NaN\<close>.
\<close>

lemma infinite_counter:
  "strToNum env ''Infinity'' = PosInf \<Longrightarrow> getWinPercentageValue env infinityRecord = NaN"
  by (simp add: getWinPercentageValue_def getWins_def getLosses_def infinityRecord_def
      pctKeys_def trim_def isWhitespace_def falsy_def)



end
